theory Spec2Isabelle
  imports Main "HOL-Library.Word"
begin

unbundle bit_operations_syntax

section \<open>Data model\<close>

text \<open>
  Bytes are \<open>8 word\<close>. A Go string is a byte sequence, so it is a list of bytes here;
  the texts of panics and errors are HOL strings. Go's \<open>int\<close> is 64 bits wide; the
  counters of the parser (\<open>_handleValue\<close>, \<open>nPos\<close>, lengths) are \<open>int\<close>, since no
  finite input brings them near \<open>2^63\<close>. Where the source computes in \<open>uint8\<close>,
  \<open>uint32\<close> or \<open>int32\<close> the model computes in words of that width.
\<close>

type_synonym byte = "8 word"
type_synonym gostring = "byte list"

subsection \<open>Constants (ph.go)\<close>

text \<open>
  \<open>ph.go\<close> declares \<open>STREAM_VERSION\<close> with type \<open>uint16\<close>; \<open>parseStream\<close> and
  \<open>version\<close> compare it with a byte, and it is a byte here.
\<close>

definition STREAM_MAGIC :: "16 word" where "STREAM_MAGIC = 0xaced"
definition STREAM_VERSION :: byte where "STREAM_VERSION = 5"
definition TC_NULL :: byte where "TC_NULL = 0x70"
definition TC_REFERENCE :: byte where "TC_REFERENCE = 0x71"
definition TC_CLASSDESC :: byte where "TC_CLASSDESC = 0x72"
definition TC_OBJECT :: byte where "TC_OBJECT = 0x73"
definition TC_STRING :: byte where "TC_STRING = 0x74"
definition TC_ARRAY :: byte where "TC_ARRAY = 0x75"
definition TC_CLASS :: byte where "TC_CLASS = 0x76"
definition TC_BLOCKDATA :: byte where "TC_BLOCKDATA = 0x77"
definition TC_ENDBLOCKDATA :: byte where "TC_ENDBLOCKDATA = 0x78"
definition TC_RESET :: byte where "TC_RESET = 0x79"
definition TC_BLOCKDATALONG :: byte where "TC_BLOCKDATALONG = 0x7A"
definition TC_EXCEPTION :: byte where "TC_EXCEPTION = 0x7B"
definition TC_LONGSTRING :: byte where "TC_LONGSTRING = 0x7C"
definition TC_PROXYCLASSDESC :: byte where "TC_PROXYCLASSDESC = 0x7D"
definition TC_ENUM :: byte where "TC_ENUM = 0x7E"

definition baseWireHandle :: int where "baseWireHandle = 0x7E0000"
definition SC_WRITE_METHOD :: byte where "SC_WRITE_METHOD = 0x01"
definition SC_BLOCK_DATA :: byte where "SC_BLOCK_DATA = 0x08"
definition SC_SERIALIZABLE :: byte where "SC_SERIALIZABLE = 0x02"
definition SC_EXTERNALIZABLE :: byte where "SC_EXTERNALIZABLE = 0x04"
definition SC_ENUM :: byte where "SC_ENUM = 0x10"
definition SC_Fail :: byte where "SC_Fail = 0x00"

text \<open>
  Modelled from the spec: the byte constants \<open>STREAM_MAGIC1\<close>, \<open>STREAM_MAGIC2\<close> and
  \<open>RMI_Call\<close> \<dots> \<open>RMI_DgcAck\<close> are used by \<open>parseStream\<close> but their declarations are
  not among the source files. The values are those of the specification (magic
  \<open>0xACED\<close>, framing bytes \<open>0x50\<close> \<dots> \<open>0x54\<close>), which are also the values that the
  messages printed by \<open>parseStream\<close> name.
\<close>

definition STREAM_MAGIC1 :: byte where "STREAM_MAGIC1 = 0xac"
definition STREAM_MAGIC2 :: byte where "STREAM_MAGIC2 = 0xed"
definition RMI_Call :: byte where "RMI_Call = 0x50"
definition RMI_ReturnData :: byte where "RMI_ReturnData = 0x51"
definition RMI_Ping :: byte where "RMI_Ping = 0x52"
definition RMI_PingAck :: byte where "RMI_PingAck = 0x53"
definition RMI_DgcAck :: byte where "RMI_DgcAck = 0x54"

subsection \<open>Errors, panics and dynamic values\<close>

text \<open>
  An \<open>error\<close> value of Go: the two sentinels of package \<open>io\<close>, a fresh error
  (\<open>errors.New\<close>, \<open>errors.Errorf\<close> with its arguments) and a wrapped one
  (\<open>errors.Wrap\<close>). \<open>Cause\<close> is \<open>errors.Cause\<close>.
\<close>

datatype error =
    EOF
  | ErrUnexpectedEOF
  | New string
  | Errorf string "int list"
  | Wrap error string

fun Cause :: "error \<Rightarrow> error" where
  "Cause (Wrap e m) = Cause e"
| "Cause e = e"

text \<open>
  A panic ends the run: \<open>log.Panicln\<close> with its message, or a run-time error of Go
  (a method reading a field through a nil pointer, a slice expression out of range).
\<close>

datatype panic =
    LogPanic string
  | NilDereference
  | SliceOutOfRange

text \<open>The values of type \<open>interface{}\<close> that the value parser handles.\<close>

datatype val =
    VNil
  | VString gostring
  | VBytes "byte list"
  | VSlice "val list"
  | VMap "(gostring \<times> val) list"

subsection \<open>Class model (ClassFieldImp.go, ClassDetailsImp.go)\<close>

record ClassField =
  typeCode :: byte
  name :: gostring
  className1 :: gostring

definition NewClassField :: "byte \<Rightarrow> ClassField" where
  "NewClassField tc = \<lparr>typeCode = tc, name = [], className1 = []\<rparr>"

record ClassDetails =
  className :: gostring
  refHandle :: int
  classDescFlags :: byte
  fieldDescriptions :: "ClassField list"

definition NewClassDetails :: "gostring \<Rightarrow> ClassDetails" where
  "NewClassDetails cn =
     \<lparr>className = cn, refHandle = -1, classDescFlags = 0, fieldDescriptions = []\<rparr>"

definition isSC_SERIALIZABLE :: "ClassDetails \<Rightarrow> bool" where
  "isSC_SERIALIZABLE cd \<longleftrightarrow> (classDescFlags cd AND 0x02) = 0x02"

definition isSC_EXTERNALIZABLE :: "ClassDetails \<Rightarrow> bool" where
  "isSC_EXTERNALIZABLE cd \<longleftrightarrow> (classDescFlags cd AND 0x04) = 0x04"

definition isSC_WRITE_METHOD :: "ClassDetails \<Rightarrow> bool" where
  "isSC_WRITE_METHOD cd \<longleftrightarrow> (classDescFlags cd AND 0x01) = 0x01"

definition isSC_BLOCK_DATA :: "ClassDetails \<Rightarrow> bool" where
  "isSC_BLOCK_DATA cd \<longleftrightarrow> (classDescFlags cd AND 0x08) = 0x08"

text \<open>
  \<open>ClassDataDesc\<close> holds the list \<open>_classDetails\<close>: the class first, then its super
  classes. The setters of the source all act on the last element of the list and index it
  with \<open>len - 1\<close>; on an empty list that index panics in Go, and \<open>None\<close> here.
\<close>

record ClassDataDesc =
  classDetails :: "ClassDetails list"

definition NewClassDataDesc :: ClassDataDesc where
  "NewClassDataDesc = \<lparr>classDetails = []\<rparr>"

definition NewClassDataDesc1 :: "ClassDetails list \<Rightarrow> ClassDataDesc" where
  "NewClassDataDesc1 cd = \<lparr>classDetails = cd\<rparr>"

definition GetClassDataDesc :: "ClassDataDesc \<Rightarrow> ClassDetails list" where
  "GetClassDataDesc this = classDetails this"

text \<open>
  \<open>buildClassDataDescFromIndex\<close> appends the whole list \<open>this._classDetails\<close> to an
  empty one; the parameter \<open>index\<close> is not used in its body.
\<close>

definition buildClassDataDescFromIndex :: "ClassDataDesc \<Rightarrow> int \<Rightarrow> ClassDataDesc" where
  "buildClassDataDescFromIndex this index = NewClassDataDesc1 ([] @ classDetails this)"

definition addSuperClassDesc :: "ClassDataDesc \<Rightarrow> ClassDataDesc option \<Rightarrow> ClassDataDesc" where
  "addSuperClassDesc this scdd =
     (case scdd of
        None \<Rightarrow> this
      | Some s \<Rightarrow> this\<lparr>classDetails := classDetails this @ GetClassDataDesc s\<rparr>)"

definition addClass :: "ClassDataDesc \<Rightarrow> gostring \<Rightarrow> ClassDataDesc" where
  "addClass this cn = this\<lparr>classDetails := classDetails this @ [NewClassDetails cn]\<rparr>"

definition updLast :: "('a \<Rightarrow> 'a) \<Rightarrow> 'a list \<Rightarrow> 'a list option" where
  "updLast f xs = (if xs = [] then None else Some (butlast xs @ [f (last xs)]))"

definition updLastClass ::
  "(ClassDetails \<Rightarrow> ClassDetails) \<Rightarrow> ClassDataDesc \<Rightarrow> ClassDataDesc option" where
  "updLastClass f this =
     map_option (\<lambda>cs. this\<lparr>classDetails := cs\<rparr>) (updLast f (classDetails this))"

definition setLastClassHandle :: "ClassDataDesc \<Rightarrow> int \<Rightarrow> ClassDataDesc option" where
  "setLastClassHandle this h = updLastClass (\<lambda>cd. cd\<lparr>refHandle := h\<rparr>) this"

definition setLastClassDescFlags :: "ClassDataDesc \<Rightarrow> byte \<Rightarrow> ClassDataDesc option" where
  "setLastClassDescFlags this fl = updLastClass (\<lambda>cd. cd\<lparr>classDescFlags := fl\<rparr>) this"

definition addFieldToLastClass :: "ClassDataDesc \<Rightarrow> byte \<Rightarrow> ClassDataDesc option" where
  "addFieldToLastClass this tc =
     updLastClass (\<lambda>cd. cd\<lparr>fieldDescriptions := fieldDescriptions cd @ [NewClassField tc]\<rparr>) this"

text \<open>
  The two setters for the last field index \<open>_fieldDescriptions\<close> with \<open>len - 1\<close> as
  well; \<open>None\<close> stands for the index panic on an empty class list or field list.
\<close>

definition updLastField ::
  "(ClassField \<Rightarrow> ClassField) \<Rightarrow> ClassDataDesc \<Rightarrow> ClassDataDesc option" where
  "updLastField f this =
     (if classDetails this = [] \<or> fieldDescriptions (last (classDetails this)) = [] then None
      else updLastClass
             (\<lambda>cd. cd\<lparr>fieldDescriptions :=
                        butlast (fieldDescriptions cd) @ [f (last (fieldDescriptions cd))]\<rparr>) this)"

definition setLastFieldName :: "ClassDataDesc \<Rightarrow> gostring \<Rightarrow> ClassDataDesc option" where
  "setLastFieldName this n = updLastField (\<lambda>cf. cf\<lparr>name := n\<rparr>) this"

definition setLastFieldClassName1 :: "ClassDataDesc \<Rightarrow> gostring \<Rightarrow> ClassDataDesc option" where
  "setLastFieldClassName1 this cn1 = updLastField (\<lambda>cf. cf\<lparr>className1 := cn1\<rparr>) this"

text \<open>
  \<open>getClassDetails\<close> returns the nil pointer for an index at or past the end. Its
  callers pass indices from 0 upwards only.
\<close>

definition getClassDetails :: "ClassDataDesc \<Rightarrow> int \<Rightarrow> ClassDetails option" where
  "getClassDetails this index =
     (if index \<ge> int (length (classDetails this)) then None
      else Some (classDetails this ! nat index))"

definition getClassCount :: "ClassDataDesc \<Rightarrow> int" where
  "getClassCount this = int (length (classDetails this))"

subsection \<open>Parser state (model.go)\<close>

text \<open>
  The fields of \<open>SerializedObjectParser\<close> together with those of its \<open>Smooth\<close>
  (\<open>data\<close>, \<open>nPos\<close>) and of its \<open>SerObject\<close>. \<open>rd\<close> is the input that the buffered
  reader has not handed out yet. What the parser prints to standard output is not part of
  the state; the indentation string \<open>_indent\<close> is, because \<open>decreaseIndent\<close> panics on
  it.
\<close>

record SerObject =
  so_STREAM_MAGIC :: "16 word"
  so_STREAM_VERSION :: byte
  so_Tc_Type :: byte

record SerializedObjectParser =
  rd :: "byte list"
  handles :: "val list"
  maxDataBlockSize :: int
  handleValue :: int
  indent :: string
  classDataDescriptions :: "ClassDataDesc list"
  data :: "byte list"
  nPos :: int
  so :: SerObject

text \<open>
  \<open>NewSerializedObjectParser\<close> followed by the option \<open>SetMaxDataBlockSize maxSize\<close>,
  as \<open>ParseSerializedObject\<close> builds its parser.
\<close>

definition NewSerializedObjectParser :: "byte list \<Rightarrow> int \<Rightarrow> SerializedObjectParser" where
  "NewSerializedObjectParser buf maxSize =
     \<lparr>rd = buf, handles = [], maxDataBlockSize = maxSize, handleValue = 0x7e0000,
      indent = [], classDataDescriptions = [], data = [], nPos = 0,
      so = \<lparr>so_STREAM_MAGIC = 0, so_STREAM_VERSION = 0, so_Tc_Type = 0\<rparr>\<rparr>"

section \<open>Byte readers\<close>

text \<open>
  \<open>binary.Read\<close> of \<open>n\<close> bytes from the buffered reader is \<open>io.ReadFull\<close>: it hands
  out \<open>n\<close> bytes, or fails with \<open>io.EOF\<close> when none is left and with
  \<open>io.ErrUnexpectedEOF\<close> (having consumed the rest) when fewer than \<open>n\<close> are.
\<close>

definition ReadFull ::
  "nat \<Rightarrow> SerializedObjectParser \<Rightarrow> byte list \<times> error option \<times> SerializedObjectParser" where
  "ReadFull n st =
     (if n \<le> length (rd st) then (take n (rd st), None, st\<lparr>rd := drop n (rd st)\<rparr>)
      else if rd st = [] then ([], Some EOF, st)
      else (rd st, Some ErrUnexpectedEOF, st\<lparr>rd := []\<rparr>))"

text \<open>Big-endian decoding, as \<open>binary.BigEndian\<close> does it.\<close>

definition be16 :: "byte list \<Rightarrow> 16 word" where
  "be16 bs = push_bit 8 (ucast (bs ! 0)) OR ucast (bs ! 1)"

definition be32 :: "byte list \<Rightarrow> 32 word" where
  "be32 bs = push_bit 24 (ucast (bs ! 0)) OR push_bit 16 (ucast (bs ! 1))
             OR push_bit 8 (ucast (bs ! 2)) OR ucast (bs ! 3)"

text \<open>Each reader returns the zero value together with the wrapped error when it fails.\<close>

definition readUInt8 ::
  "SerializedObjectParser \<Rightarrow> byte \<times> error option \<times> SerializedObjectParser" where
  "readUInt8 st =
     (case ReadFull 1 st of
        (bs, None, st') \<Rightarrow> (bs ! 0, None, st')
      | (bs, Some e, st') \<Rightarrow> (0, Some (Wrap e ''error reading uint8''), st'))"

definition readUInt16 ::
  "SerializedObjectParser \<Rightarrow> 16 word \<times> error option \<times> SerializedObjectParser" where
  "readUInt16 st =
     (case ReadFull 2 st of
        (bs, None, st') \<Rightarrow> (be16 bs, None, st')
      | (bs, Some e, st') \<Rightarrow> (0, Some (Wrap e ''error reading uint16''), st'))"

definition readInt32 ::
  "SerializedObjectParser \<Rightarrow> 32 word \<times> error option \<times> SerializedObjectParser" where
  "readInt32 st =
     (case ReadFull 4 st of
        (bs, None, st') \<Rightarrow> (be32 bs, None, st')
      | (bs, Some e, st') \<Rightarrow> (0, Some (Wrap e ''error reading int32''), st'))"

subsection \<open>Smooth: the one-byte lookahead (ClassDetailsImp.go)\<close>

definition Smooth_add :: "byte \<Rightarrow> SerializedObjectParser \<Rightarrow> SerializedObjectParser" where
  "Smooth_add b1 st = st\<lparr>data := [b1] @ data st\<rparr>"

text \<open>
  \<open>pop\<close> and \<open>peek\<close> assign the error of \<open>readUInt8\<close> to the blank identifier and use
  the byte that comes with it.
\<close>

definition Smooth_pop :: "SerializedObjectParser \<Rightarrow> byte \<times> SerializedObjectParser" where
  "Smooth_pop st =
     (if 0 < length (data st)
      then (data st ! 0, st\<lparr>data := drop 1 (data st), nPos := nPos st + 1\<rparr>)
      else (case readUInt8 st of (b, _, st') \<Rightarrow> (b, st')))"

definition Smooth_size :: "SerializedObjectParser \<Rightarrow> int" where
  "Smooth_size st = maxDataBlockSize st - nPos st"

definition Smooth_peek :: "SerializedObjectParser \<Rightarrow> byte \<times> SerializedObjectParser" where
  "Smooth_peek st =
     (if 0 < length (data st) then (data st ! 0, st)
      else (case readUInt8 st of (b, _, st') \<Rightarrow> (b, Smooth_add b st')))"

section \<open>The value parser: prelude, references, post-processors\<close>

text \<open>\<open>magic\<close> and \<open>version\<close> of the method \<open>ParseSerializedObject\<close>.\<close>

definition magic :: "SerializedObjectParser \<Rightarrow> error option \<times> SerializedObjectParser" where
  "magic st =
     (case readUInt16 st of (magicVal, err, st') \<Rightarrow>
        if err = None \<and> magicVal \<noteq> STREAM_MAGIC
        then (Some (New ''magic value STREAM_MAGIC not found''), st')
        else (err, st'\<lparr>so := (so st')\<lparr>so_STREAM_MAGIC := STREAM_MAGIC\<rparr>\<rparr>))"

text \<open>
  \<open>version\<close> compares \<open>byte(ver)\<close>, the low byte of the 16-bit value read, with
  \<open>STREAM_VERSION\<close>.
\<close>

definition version :: "SerializedObjectParser \<Rightarrow> error option \<times> SerializedObjectParser" where
  "version st =
     (case readUInt16 st of (ver, err, st') \<Rightarrow>
        if err \<noteq> None then (err, st')
        else if (ucast ver :: byte) \<noteq> STREAM_VERSION
        then (Some (Errorf ''protocol version not recognized: wanted 5 got %d'' [uint ver]), st')
        else (None, st'\<lparr>so := (so st')\<lparr>so_STREAM_VERSION := STREAM_VERSION\<rparr>\<rparr>))"

text \<open>
  \<open>parseReference\<close>: the subtraction \<open>refIdx - refIDMask\<close> is one of \<open>int32\<close> and wraps;
  \<open>ref\<close> keeps its zero value \<open>nil\<close> unless the guard holds.
\<close>

definition refIDMask :: "32 word" where "refIDMask = 0x7e0000"

definition parseReference ::
  "SerializedObjectParser \<Rightarrow> val \<times> error option \<times> SerializedObjectParser" where
  "parseReference st =
     (case readInt32 st of (refIdx, err, st') \<Rightarrow>
        (case err of
           Some e \<Rightarrow> (VNil, Some (Wrap e ''error reading reference index''), st')
         | None \<Rightarrow>
             (let i = sint (refIdx - refIDMask) in
              if i > -1 \<and> i < int (length (handles st'))
              then (handles st' ! nat i, None, st')
              else (VNil, None, st'))))"

text \<open>
  \<open>postProcSize\<close>: the size is the \<open>int32\<close> read big-endian from \<open>b[offset:]\<close>, which
  holds at least four bytes once the length check has passed. The callers pass the
  offsets 0, 4 and 8.
\<close>

definition postProcSize :: "val list \<Rightarrow> nat \<Rightarrow> int \<times> error option" where
  "postProcSize dat offset =
     (if length dat < 1 then (0, Some (New ''invalid data: at least one element required''))
      else (case dat ! 0 of
              VBytes b \<Rightarrow>
                if length b < offset + 4
                then (0, Some (Errorf ''incorrect data at position 0: wanted at least %d bytes, got %d''
                                 [int (offset + 4), int (length b)]))
                else (sint (be32 (drop offset b)), None)
            | _ \<Rightarrow> (0, Some (New ''unexpected data at position 0''))))"

text \<open>
  \<open>listPostProc\<close>: \<open>data[1:size]\<close> is the slice of the elements with index 1 up to
  \<open>size - 1\<close>. The map \<open>fields\<close> is updated in place and returned; a nil map is \<open>None\<close>.
\<close>

definition key_value :: gostring where
  "key_value = [0x76, 0x61, 0x6c, 0x75, 0x65]"

definition listPostProc ::
  "(gostring \<rightharpoonup> val) \<Rightarrow> val list \<Rightarrow> (gostring \<rightharpoonup> val) option \<times> error option" where
  "listPostProc flds dat =
     (case postProcSize dat 0 of
        (sz, Some e) \<Rightarrow> (None, Some e)
      | (sz, None) \<Rightarrow>
          if int (length dat) \<noteq> sz + 1
          then (None, Some (Errorf ''incorrect number of elements: want %d got %d''
                              [sz, int (length dat) - 1]))
          else if sz > 1
          then (Some (flds(key_value \<mapsto> VSlice (take (nat sz - 1) (drop 1 dat)))), None)
          else (Some (flds(key_value \<mapsto> VSlice [])), None))"

text \<open>
  The class descriptor of the value parser. \<open>classData\<close> selects by \<open>cls.flags & 0x0f\<close>;
  the readers \<open>values\<close> and \<open>annotationsAsMap\<close> that two of its branches call are
  parameters here, and \<open>None\<close> is a reader that does not return.
\<close>

datatype clazz = Clazz (super: "clazz option") (annotations: "val list")
  (serialVersionUID: gostring) (clazz_name: gostring) (flags: byte) (isEnum: bool)

type_synonym classDataResult =
  "((gostring \<rightharpoonup> val) option \<times> error option \<times> SerializedObjectParser) option"

definition classData ::
  "(clazz \<Rightarrow> SerializedObjectParser \<Rightarrow> classDataResult) \<Rightarrow>
   (clazz \<Rightarrow> bool \<Rightarrow> SerializedObjectParser \<Rightarrow> classDataResult) \<Rightarrow>
   clazz option \<Rightarrow> SerializedObjectParser \<Rightarrow> classDataResult" where
  "classData values annotationsAsMap cls st =
     (case cls of
        None \<Rightarrow> Some (None, Some (New ''invalid class definition: nil''), st)
      | Some c \<Rightarrow>
          (let sel = flags c AND 0x0f in
           if sel = 0x02 then values c st
           else if sel = 0x03 then annotationsAsMap c False st
           else if sel = 0x04
           then Some (None, Some (New ''unable to parse version 1 external content''), st)
           else if sel = 0x0c then annotationsAsMap c True st
           else Some (None, Some (Errorf ''unable to deserialize class with flags %#x''
                                    [uint (flags c)]), st)))"

section \<open>The stream walker\<close>

text \<open>
  A run of the walker returns a value and the new state, panics, or has not finished
  within the given number of calls and loop iterations.
\<close>

datatype 'a outcome =
    Returned 'a SerializedObjectParser
  | Panicked panic
  | OutOfFuel

definition seq ::
  "'a outcome \<Rightarrow> ('a \<Rightarrow> SerializedObjectParser \<Rightarrow> 'b outcome) \<Rightarrow> 'b outcome" where
  "seq m f = (case m of Returned x st \<Rightarrow> f x st | Panicked p \<Rightarrow> Panicked p | OutOfFuel \<Rightarrow> OutOfFuel)"

definition Panicln :: "string \<Rightarrow> 'a outcome" where
  "Panicln msg = Panicked (LogPanic msg)"

text \<open>A setter that indexes an empty list panics with a run-time error.\<close>

definition orIndexPanic :: "'a option \<Rightarrow> SerializedObjectParser \<Rightarrow> 'a outcome" where
  "orIndexPanic x st = (case x of None \<Rightarrow> Panicked SliceOutOfRange | Some y \<Rightarrow> Returned y st)"

definition newHandle1 :: "SerializedObjectParser \<Rightarrow> int \<times> SerializedObjectParser" where
  "newHandle1 st = (handleValue st, st\<lparr>handleValue := handleValue st + 1\<rparr>)"

definition increaseIndent :: "SerializedObjectParser \<Rightarrow> SerializedObjectParser" where
  "increaseIndent st = st\<lparr>indent := indent st @ ''  ''\<rparr>"

definition decreaseIndent :: "SerializedObjectParser \<Rightarrow> unit outcome" where
  "decreaseIndent st =
     (if length (indent st) < 2 then Panicln ''Error: Illegal indentation decrease.''
      else Returned () (st\<lparr>indent := take (length (indent st) - 2) (indent st)\<rparr>))"

text \<open>\<open>pops n\<close> is \<open>n\<close> consecutive calls of \<open>this._data.pop()\<close>, first byte first.\<close>

fun pops :: "nat \<Rightarrow> SerializedObjectParser \<Rightarrow> byte list \<times> SerializedObjectParser" where
  "pops 0 st = ([], st)"
| "pops (Suc n) st =
     (case Smooth_pop st of (b, st') \<Rightarrow>
        (case pops n st' of (bs, st'') \<Rightarrow> (b # bs, st'')))"

text \<open>
  \<open>fmt.Sprintf("%c", b)\<close> for a byte \<open>b\<close>: the UTF-8 encoding of the code point \<open>b\<close>.
\<close>

definition Sprintf_c :: "byte \<Rightarrow> gostring" where
  "Sprintf_c b = (if b < 0x80 then [b] else [0xC0 OR drop_bit 6 b, 0x80 OR (b AND 0x3F)])"

text \<open>
  The length expressions of the walker, operand types as in the source: a shift of
  a \<open>uint8\<close> variable is computed in \<open>uint8\<close>, then converted, then masked.
\<close>

definition utfLength :: "byte \<Rightarrow> byte \<Rightarrow> int" where
  "utfLength b1 b2 = (uint (push_bit 8 b1) AND 0xff00) + uint (b2 AND 0xff)"

definition longUtfLength :: "byte list \<Rightarrow> 64 word" where
  "longUtfLength bs =
     ((ucast (push_bit 56 (bs ! 0)) :: 64 word) AND 0xff00000000000000) +
     ((ucast (push_bit 48 (bs ! 1)) :: 64 word) AND 0xff000000000000) +
     ((ucast (push_bit 40 (bs ! 2)) :: 64 word) AND 0xff0000000000) +
     ((ucast (push_bit 32 (bs ! 3)) :: 64 word) AND 0xff00000000) +
     ((ucast (push_bit 24 (bs ! 4)) :: 64 word) AND 0xff000000) +
     ((ucast (push_bit 16 (bs ! 5)) :: 64 word) AND 0xff0000) +
     ((ucast (push_bit 8 (bs ! 6)) :: 64 word) AND 0xff00) +
     (ucast ((bs ! 7) AND 0xff) :: 64 word)"

definition intLength :: "byte list \<Rightarrow> int" where
  "intLength bs =
     (uint (push_bit 24 (bs ! 0)) AND 0xff000000) +
     (uint (push_bit 16 (bs ! 1)) AND 0xff0000) +
     (uint (push_bit 8 (bs ! 2)) AND 0xff00) +
     (uint (bs ! 3) AND 0xff)"

definition uint32Length :: "byte list \<Rightarrow> 32 word" where
  "uint32Length bs =
     ((ucast (push_bit 24 (bs ! 0)) :: 32 word) AND 0xff000000) +
     ((ucast (push_bit 16 (bs ! 1)) :: 32 word) AND 0xff0000) +
     ((ucast (push_bit 8 (bs ! 2)) :: 32 word) AND 0xff00) +
     ((ucast (bs ! 3) :: 32 word) AND 0xff)"

text \<open>The content loop of \<open>readUtf\<close> and \<open>readLongUtf\<close>: \<open>k\<close> iterations are left.\<close>

fun readUtf_contents ::
  "nat \<Rightarrow> gostring \<Rightarrow> SerializedObjectParser \<Rightarrow> gostring \<times> SerializedObjectParser" where
  "readUtf_contents 0 content st = (content, st)"
| "readUtf_contents (Suc k) content st =
     (case Smooth_pop st of (b1, st') \<Rightarrow> readUtf_contents k (content @ Sprintf_c b1) st')"

definition readUtf :: "SerializedObjectParser \<Rightarrow> gostring \<times> SerializedObjectParser" where
  "readUtf st0 =
     (case Smooth_pop st0 of (b1, st1) \<Rightarrow>
      case Smooth_pop st1 of (b2, st2) \<Rightarrow>
        readUtf_contents (nat (utfLength b1 b2)) [] st2)"

definition readLongUtf :: "SerializedObjectParser \<Rightarrow> gostring \<times> SerializedObjectParser" where
  "readLongUtf st0 =
     (case pops 8 st0 of (bs, st1) \<Rightarrow> readUtf_contents (unat (longUtfLength bs)) [] st1)"

definition readTC_STRING :: "SerializedObjectParser \<Rightarrow> gostring outcome" where
  "readTC_STRING st0 =
     (case Smooth_pop st0 of (b1, st1) \<Rightarrow>
        if b1 \<noteq> TC_STRING then Panicln ''Error: Illegal value for TC_STRING (should be 0x74)''
        else (case newHandle1 (increaseIndent st1) of (h, st2) \<Rightarrow>
              case readUtf st2 of (v, st3) \<Rightarrow>
                seq (decreaseIndent st3) (\<lambda>_ st4. Returned v st4)))"

definition readTC_LONGSTRING :: "SerializedObjectParser \<Rightarrow> gostring outcome" where
  "readTC_LONGSTRING st0 =
     (case Smooth_pop st0 of (b1, st1) \<Rightarrow>
        if b1 \<noteq> TC_LONGSTRING
        then Panicln ''Error: Illegal value for TC_LONGSTRING (should be 0x7c)''
        else (case newHandle1 (increaseIndent st1) of (h, st2) \<Rightarrow>
              case readLongUtf st2 of (v, st3) \<Rightarrow>
                seq (decreaseIndent st3) (\<lambda>_ st4. Returned v st4)))"

definition readPrevObject :: "SerializedObjectParser \<Rightarrow> int outcome" where
  "readPrevObject st0 =
     (case Smooth_pop st0 of (b1, st1) \<Rightarrow>
        if b1 \<noteq> TC_REFERENCE
        then Panicln ''Error: Illegal value for TC_REFERENCE (should be 0x71)''
        else (case pops 4 (increaseIndent st1) of (a11, st2) \<Rightarrow>
                seq (decreaseIndent st2) (\<lambda>_ st3. Returned (uint (be32 a11)) st3)))"

definition TC_REF_text :: gostring where
  "TC_REF_text = [0x5b, 0x54, 0x43, 0x5f, 0x52, 0x45, 0x46, 0x5d]"

definition readNewString :: "SerializedObjectParser \<Rightarrow> gostring outcome" where
  "readNewString st0 =
     (case Smooth_peek st0 of (b, st1) \<Rightarrow>
        if b = TC_STRING then readTC_STRING st1
        else if b = TC_LONGSTRING then readTC_LONGSTRING st1
        else if b = TC_REFERENCE then seq (readPrevObject st1) (\<lambda>_ st2. Returned TC_REF_text st2)
        else Panicln ''Error illegal newString type.'')"

definition readNullReference :: "SerializedObjectParser \<Rightarrow> unit outcome" where
  "readNullReference st0 =
     (case Smooth_pop st0 of (b1, st1) \<Rightarrow>
        if b1 \<noteq> TC_NULL then Panicln ''Error: Illegal value for TC_NULL (should be 0x70)''
        else Returned () st1)"

text \<open>Both functions have an empty body in the source.\<close>

definition readException :: "SerializedObjectParser \<Rightarrow> SerializedObjectParser" where
  "readException st = st"

definition handleReset :: "SerializedObjectParser \<Rightarrow> SerializedObjectParser" where
  "handleReset st = st"

definition readBlockData :: "SerializedObjectParser \<Rightarrow> unit outcome" where
  "readBlockData st0 =
     (case Smooth_pop st0 of (b1, st1) \<Rightarrow>
        if b1 \<noteq> TC_BLOCKDATA
        then Panicln ''Error: Illegal value for TC_BLOCKDATA (should be 0x77)''
        else (case Smooth_pop (increaseIndent st1) of (l, st2) \<Rightarrow>
              case pops (unat (l AND 0xFF)) st2 of (contents, st3) \<Rightarrow> decreaseIndent st3))"

definition readLongBlockData :: "SerializedObjectParser \<Rightarrow> unit outcome" where
  "readLongBlockData st0 =
     (case Smooth_pop st0 of (b1, st1) \<Rightarrow>
        if b1 \<noteq> TC_BLOCKDATALONG
        then Panicln ''Error: Illegal value for TC_BLOCKDATA (should be 0x77)''
        else (case pops 4 (increaseIndent st1) of (bs, st2) \<Rightarrow>
              case pops (unat (uint32Length bs)) st2 of (contents, st3) \<Rightarrow> decreaseIndent st3))"

subsection \<open>Field descriptions and primitive field values\<close>

text \<open>The type codes \<open>B C D F I J S Z [ L\<close> as bytes.\<close>

definition code_B :: byte where "code_B = 0x42"
definition code_C :: byte where "code_C = 0x43"
definition code_D :: byte where "code_D = 0x44"
definition code_F :: byte where "code_F = 0x46"
definition code_I :: byte where "code_I = 0x49"
definition code_J :: byte where "code_J = 0x4a"
definition code_S :: byte where "code_S = 0x53"
definition code_Z :: byte where "code_Z = 0x5a"
definition code_Array :: byte where "code_Array = 0x5b"
definition code_L :: byte where "code_L = 0x4c"

definition isTypeCode :: "byte \<Rightarrow> bool" where
  "isTypeCode b \<longleftrightarrow>
     b \<in> set [code_B, code_C, code_D, code_F, code_I, code_J, code_S, code_Z, code_Array, code_L]"

definition readFieldDesc :: "ClassDataDesc \<Rightarrow> SerializedObjectParser \<Rightarrow> ClassDataDesc outcome" where
  "readFieldDesc cdd st0 =
     (case Smooth_pop st0 of (b1, st1) \<Rightarrow>
        seq (orIndexPanic (addFieldToLastClass cdd b1) st1) (\<lambda>cdd1 st2.
          if \<not> isTypeCode b1 then Panicln ''Error: Illegal field type code''
          else (case readUtf (increaseIndent st2) of (fieldName, st3) \<Rightarrow>
            seq (orIndexPanic (setLastFieldName cdd1 fieldName) st3) (\<lambda>cdd2 st4.
            seq (decreaseIndent st4) (\<lambda>_ st5.
              if b1 = code_Array \<or> b1 = code_L
              then seq (readNewString (increaseIndent st5)) (\<lambda>cn1 st6.
                   seq (orIndexPanic (setLastFieldClassName1 cdd2 cn1) st6) (\<lambda>cdd3 st7.
                   seq (decreaseIndent st7) (\<lambda>_ st8. Returned cdd3 st8)))
              else Returned cdd2 st5)))))"

text \<open>The loop of \<open>readFields\<close>: \<open>k\<close> field descriptions are left to read.\<close>

fun readFields_loop ::
  "nat \<Rightarrow> ClassDataDesc \<Rightarrow> SerializedObjectParser \<Rightarrow> ClassDataDesc outcome" where
  "readFields_loop 0 cdd st = Returned cdd st"
| "readFields_loop (Suc k) cdd st =
     seq (readFieldDesc cdd (increaseIndent st)) (\<lambda>cdd1 st1.
     seq (decreaseIndent st1) (\<lambda>_ st2. readFields_loop k cdd1 st2))"

definition readFields :: "ClassDataDesc \<Rightarrow> SerializedObjectParser \<Rightarrow> ClassDataDesc outcome" where
  "readFields cdd st0 =
     (case Smooth_pop st0 of (b1, st1) \<Rightarrow>
      case Smooth_pop st1 of (b2, st2) \<Rightarrow>
        (let count = utfLength b1 b2 in
         if count > 0
         then seq (readFields_loop (nat count) cdd (increaseIndent st2)) (\<lambda>cdd1 st3.
              seq (decreaseIndent st3) (\<lambda>_ st4. Returned cdd1 st4))
         else Returned cdd st2))"

text \<open>The readers of primitive field values pop the bytes of the value and print it.\<close>

definition readByteField :: "SerializedObjectParser \<Rightarrow> SerializedObjectParser" where
  "readByteField st = snd (pops 1 st)"
definition readCharField :: "SerializedObjectParser \<Rightarrow> SerializedObjectParser" where
  "readCharField st = snd (pops 2 st)"
definition readFloatField :: "SerializedObjectParser \<Rightarrow> SerializedObjectParser" where
  "readFloatField st = snd (pops 4 st)"
definition readIntField :: "SerializedObjectParser \<Rightarrow> SerializedObjectParser" where
  "readIntField st = snd (pops 4 st)"
definition readLongField :: "SerializedObjectParser \<Rightarrow> SerializedObjectParser" where
  "readLongField st = snd (pops 8 st)"
definition readShortField :: "SerializedObjectParser \<Rightarrow> SerializedObjectParser" where
  "readShortField st = snd (pops 2 st)"
definition readBooleanField :: "SerializedObjectParser \<Rightarrow> SerializedObjectParser" where
  "readBooleanField st = snd (pops 1 st)"
definition readDoubleField :: "SerializedObjectParser \<Rightarrow> SerializedObjectParser" where
  "readDoubleField st = snd (pops 8 st)"

text \<open>The interface names of a proxy class descriptor: \<open>k\<close> names are left to read.\<close>

fun readProxyInterfaceNames :: "nat \<Rightarrow> SerializedObjectParser \<Rightarrow> unit outcome" where
  "readProxyInterfaceNames 0 st = Returned () st"
| "readProxyInterfaceNames (Suc k) st =
     (case readUtf (increaseIndent st) of (n, st1) \<Rightarrow>
        seq (decreaseIndent st1) (\<lambda>_ st2. readProxyInterfaceNames k st2))"

subsection \<open>Class descriptor flags and references\<close>

text \<open>
  The validation of \<open>classDescFlags\<close> in \<open>readClassDescInfo\<close>: the message of the
  \<open>log.Panicln\<close> that the flag byte runs into, if any.
\<close>

definition classDescFlagsPanic :: "byte \<Rightarrow> string option" where
  "classDescFlagsPanic b1 =
     (if (b1 AND SC_SERIALIZABLE) = SC_SERIALIZABLE then
        (if (b1 AND SC_EXTERNALIZABLE) = SC_EXTERNALIZABLE
         then Some ''Error: Illegal classDescFlags, SC_SERIALIZABLE is not compatible with SC_EXTERNALIZABLE.''
         else if (b1 AND SC_BLOCK_DATA) = SC_BLOCK_DATA
         then Some ''Error: Illegal classDescFlags, SC_SERIALIZABLE is not compatible with SC_BLOCK_DATA.''
         else None)
      else if (b1 AND SC_EXTERNALIZABLE) = SC_EXTERNALIZABLE then
        (if (b1 AND SC_WRITE_METHOD) = SC_WRITE_METHOD
         then Some ''Error: Illegal classDescFlags, SC_EXTERNALIZABLE is not compatible with SC_WRITE_METHOD.''
         else None)
      else if b1 \<noteq> SC_Fail
      then Some ''Error: Illegal classDescFlags, must include either SC_SERIALIZABLE or SC_EXTERNALIZABLE.''
      else None)"

text \<open>
  The search of \<open>readClassDesc\<close> for a referenced class. The inner loop adds one to
  \<open>classIndex\<close> before it uses it, and calls \<open>getHandle\<close> on what \<open>getClassDetails\<close>
  returns, which is the nil pointer at index \<open>getClassCount\<close>. \<open>None\<close>: the loop ended
  without a match.
\<close>

function findClass :: "ClassDataDesc \<Rightarrow> int \<Rightarrow> int \<Rightarrow> (panic + ClassDataDesc) option" where
  "findClass cdd h classIndex =
     (if classIndex < getClassCount cdd then
        (let classIndex1 = classIndex + 1 in
         case getClassDetails cdd classIndex1 of
           None \<Rightarrow> Some (Inl NilDereference)
         | Some cd \<Rightarrow>
             if refHandle cd = h then Some (Inr (buildClassDataDescFromIndex cdd classIndex1))
             else findClass cdd h classIndex1)
      else None)"
  by pat_completeness auto
termination
  by (relation "measure (\<lambda>(cdd, h, classIndex). nat (getClassCount cdd - classIndex))") auto

declare findClass.simps [simp del]

fun findClassDataDesc :: "ClassDataDesc list \<Rightarrow> int \<Rightarrow> (panic + ClassDataDesc) option" where
  "findClassDataDesc [] h = None"
| "findClassDataDesc (cdd # cdds) h =
     (case findClass cdd h 0 of
        Some r \<Rightarrow> Some r
      | None \<Rightarrow> findClassDataDesc cdds h)"

text \<open>The class name that \<open>readTC_PROXYCLASSDESC\<close> gives a proxy class: \<open><Dynamic Proxy Class>\<close>.\<close>

definition DynamicProxyClass :: gostring where
  "DynamicProxyClass =
     [0x3c, 0x44, 0x79, 0x6e, 0x61, 0x6d, 0x69, 0x63, 0x20, 0x50, 0x72, 0x6f, 0x78, 0x79,
      0x20, 0x43, 0x6c, 0x61, 0x73, 0x73, 0x3e]"

subsection \<open>The recursive descent\<close>

definition noError :: "'a \<Rightarrow> SerializedObjectParser \<Rightarrow> error option outcome" where
  "noError x st = Returned None st"

definition discard :: "'a \<Rightarrow> SerializedObjectParser \<Rightarrow> unit outcome" where
  "discard x st = Returned () st"

text \<open>
  The functions of the walker call each other, and every cycle of calls goes through
  \<open>readContentElement\<close>, \<open>readClassDesc\<close> or \<open>readFieldValue\<close>. A value of type
  \<open>calls\<close> holds these three as they may be called at the current depth, and the number
  \<open>fuel\<close> of nested calls that are left; each other function takes it as its first
  argument \<open>w\<close>. \<open>walker n\<close> further down ties the knot.
\<close>

record calls =
  fuel :: nat
  readContentElement :: "SerializedObjectParser \<Rightarrow> error option outcome"
  readClassDesc :: "SerializedObjectParser \<Rightarrow> ClassDataDesc option outcome"
  readFieldValue :: "byte \<Rightarrow> SerializedObjectParser \<Rightarrow> unit outcome"

text \<open>
  The loop \<open>for x != TC_ENDBLOCKDATA { readContentElement(); x = peek() }\<close> of
  \<open>readClassAnnotation\<close> and of \<open>readClassData\<close>; the error that \<open>readContentElement\<close>
  returns is not looked at. The loop has no bound of its own: \<open>k\<close> bounds its iterations.
\<close>

fun untilEndBlockData :: "nat \<Rightarrow> calls \<Rightarrow> byte \<Rightarrow> SerializedObjectParser \<Rightarrow> unit outcome" where
  "untilEndBlockData 0 w x st = (if x \<noteq> TC_ENDBLOCKDATA then OutOfFuel else Returned () st)"
| "untilEndBlockData (Suc k) w x st =
     (if x \<noteq> TC_ENDBLOCKDATA
      then seq (readContentElement w st) (\<lambda>_ st1.
             case Smooth_peek st1 of (x1, st2) \<Rightarrow> untilEndBlockData k w x1 st2)
      else Returned () st)"

definition readClassAnnotation :: "calls \<Rightarrow> SerializedObjectParser \<Rightarrow> unit outcome" where
  "readClassAnnotation w st0 =
     (case Smooth_peek (increaseIndent st0) of (x, st1) \<Rightarrow>
        seq (untilEndBlockData (fuel w) w x st1) (\<lambda>_ st2.
          decreaseIndent (snd (Smooth_pop st2))))"

definition readSuperClassDesc ::
  "calls \<Rightarrow> SerializedObjectParser \<Rightarrow> ClassDataDesc option outcome" where
  "readSuperClassDesc w st0 =
     seq (readClassDesc w (increaseIndent st0)) (\<lambda>cdd st1.
     seq (decreaseIndent st1) (\<lambda>_ st2. Returned cdd st2))"

definition readClassDescInfo ::
  "calls \<Rightarrow> ClassDataDesc \<Rightarrow> SerializedObjectParser \<Rightarrow> ClassDataDesc outcome" where
  "readClassDescInfo w cdd st0 =
     (case Smooth_pop st0 of (b1, st1) \<Rightarrow>
        seq (orIndexPanic (setLastClassDescFlags cdd b1) st1) (\<lambda>cdd1 st2.
          case classDescFlagsPanic b1 of
            Some msg \<Rightarrow> Panicln msg
          | None \<Rightarrow>
              seq (readFields cdd1 st2) (\<lambda>cdd2 st3.
              seq (readClassAnnotation w st3) (\<lambda>_ st4.
              seq (readSuperClassDesc w st4) (\<lambda>scdd st5.
                Returned (addSuperClassDesc cdd2 scdd) st5)))))"

definition readTC_CLASSDESC :: "calls \<Rightarrow> SerializedObjectParser \<Rightarrow> ClassDataDesc outcome" where
  "readTC_CLASSDESC w st0 =
     (case Smooth_pop st0 of (b1, st1) \<Rightarrow>
        if b1 \<noteq> TC_CLASSDESC
        then Panicln ''Error: Illegal value for TC_CLASSDESC (should be 0x72)''
        else (case readUtf (increaseIndent (increaseIndent st1)) of (cn, st2) \<Rightarrow>
          seq (decreaseIndent st2) (\<lambda>_ st3.
            case pops 8 st3 of (uid, st4) \<Rightarrow>
            case newHandle1 st4 of (h, st5) \<Rightarrow>
              seq (orIndexPanic (setLastClassHandle (addClass NewClassDataDesc cn) h) st5)
                (\<lambda>cdd st6.
                  seq (readClassDescInfo w cdd st6) (\<lambda>cdd1 st7.
                  seq (decreaseIndent st7) (\<lambda>_ st8. Returned cdd1 st8))))))"

definition readProxyClassDescInfo ::
  "calls \<Rightarrow> ClassDataDesc \<Rightarrow> SerializedObjectParser \<Rightarrow> ClassDataDesc outcome" where
  "readProxyClassDescInfo w cdd st0 =
     (case pops 4 st0 of (bs, st1) \<Rightarrow>
        seq (readProxyInterfaceNames (nat (intLength bs)) (increaseIndent st1)) (\<lambda>_ st2.
        seq (decreaseIndent st2) (\<lambda>_ st3.
        seq (readClassAnnotation w st3) (\<lambda>_ st4.
        seq (readSuperClassDesc w st4) (\<lambda>scdd st5.
          Returned (addSuperClassDesc cdd scdd) st5)))))"

definition readTC_PROXYCLASSDESC ::
  "calls \<Rightarrow> SerializedObjectParser \<Rightarrow> ClassDataDesc outcome" where
  "readTC_PROXYCLASSDESC w st0 =
     (case Smooth_pop st0 of (b1, st1) \<Rightarrow>
        if b1 \<noteq> TC_PROXYCLASSDESC
        then Panicln ''Error: Illegal value for TC_PROXYCLASSDESC (should be 0x7d)''
        else (case newHandle1 (increaseIndent st1) of (h, st2) \<Rightarrow>
          seq (orIndexPanic (setLastClassHandle (addClass NewClassDataDesc DynamicProxyClass) h) st2)
            (\<lambda>cdd st3.
              seq (readProxyClassDescInfo w cdd st3) (\<lambda>cdd1 st4.
              seq (decreaseIndent st4) (\<lambda>_ st5. Returned cdd1 st5)))))"

definition readNewClassDesc :: "calls \<Rightarrow> SerializedObjectParser \<Rightarrow> ClassDataDesc outcome" where
  "readNewClassDesc w st0 =
     (case Smooth_peek st0 of (b, st1) \<Rightarrow>
        if b = TC_CLASSDESC
        then seq (readTC_CLASSDESC w st1) (\<lambda>cdd st2.
               Returned cdd (st2\<lparr>classDataDescriptions := classDataDescriptions st2 @ [cdd]\<rparr>))
        else if b = TC_PROXYCLASSDESC
        then seq (readTC_PROXYCLASSDESC w st1) (\<lambda>cdd st2.
               Returned cdd (st2\<lparr>classDataDescriptions := classDataDescriptions st2 @ [cdd]\<rparr>))
        else Panicln ''Error illegal newClassDesc type.'')"

text \<open>
  \<open>readClassDesc\<close>, one call deep: the calls it makes go through \<open>w\<close>.
\<close>

definition readClassDesc_body ::
  "calls \<Rightarrow> SerializedObjectParser \<Rightarrow> ClassDataDesc option outcome" where
  "readClassDesc_body w st0 =
     (case Smooth_peek st0 of (b1, st1) \<Rightarrow>
        if b1 = TC_CLASSDESC \<or> b1 = TC_PROXYCLASSDESC
        then seq (readNewClassDesc w st1) (\<lambda>cdd st2. Returned (Some cdd) st2)
        else if b1 = TC_NULL
        then seq (readNullReference st1) (\<lambda>_ st2. Returned None st2)
        else if b1 = TC_REFERENCE
        then seq (readPrevObject st1) (\<lambda>h st2.
               case findClassDataDesc (classDataDescriptions st2) h of
                 Some (Inr cdd) \<Rightarrow> Returned (Some cdd) st2
               | Some (Inl p) \<Rightarrow> Panicked p
               | None \<Rightarrow> Panicln ''Error: Invalid classDesc reference'')
        else Panicln ''Error illegal classDesc type.'')"

text \<open>
  \<open>readClassData\<close>: the field loop of one class, the loop over the classes from index
  \<open>getClassCount - 1\<close> down to 0 (\<open>k\<close> is the index plus one), and the function.
\<close>

definition readClassDataField :: "calls \<Rightarrow> ClassField \<Rightarrow> SerializedObjectParser \<Rightarrow> unit outcome" where
  "readClassDataField w cf st =
     seq (readFieldValue w (typeCode cf) (increaseIndent st)) (\<lambda>_ st1. decreaseIndent st1)"

fun readClassData_values ::
  "calls \<Rightarrow> ClassField list \<Rightarrow> SerializedObjectParser \<Rightarrow> unit outcome" where
  "readClassData_values w [] st = Returned () st"
| "readClassData_values w (cf # cfs) st =
     seq (readClassDataField w cf st) (\<lambda>_ st1. readClassData_values w cfs st1)"

fun readClassData_classes ::
  "calls \<Rightarrow> ClassDataDesc \<Rightarrow> nat \<Rightarrow> SerializedObjectParser \<Rightarrow> unit outcome" where
  "readClassData_classes w c 0 st = Returned () st"
| "readClassData_classes w c (Suc classIndex) st =
     (case getClassDetails c (int classIndex) of
        None \<Rightarrow> Panicked NilDereference
      | Some cd \<Rightarrow>
          seq (if isSC_SERIALIZABLE cd
               then seq (readClassData_values w (fieldDescriptions cd)
                           (increaseIndent (increaseIndent st))) (\<lambda>_ st1. decreaseIndent st1)
               else Returned () (increaseIndent st)) (\<lambda>_ st2.
          if isSC_EXTERNALIZABLE cd \<and> \<not> isSC_BLOCK_DATA cd
          then Panicln ''Error: Unable to parse externalContents element.''
          else
          seq (if (isSC_SERIALIZABLE cd \<and> isSC_WRITE_METHOD cd) \<or>
                  (isSC_EXTERNALIZABLE cd \<and> isSC_BLOCK_DATA cd)
               then (case Smooth_peek (increaseIndent st2) of (x1, st3) \<Rightarrow>
                       seq (untilEndBlockData (fuel w) w x1 st3) (\<lambda>_ st4.
                         decreaseIndent (snd (Smooth_pop st4))))
               else Returned () st2) (\<lambda>_ st5.
          seq (decreaseIndent st5) (\<lambda>_ st6. readClassData_classes w c classIndex st6))))"

definition readClassData ::
  "calls \<Rightarrow> ClassDataDesc option \<Rightarrow> SerializedObjectParser \<Rightarrow> unit outcome" where
  "readClassData w cdd st0 =
     (case cdd of
        Some c \<Rightarrow>
          seq (readClassData_classes w c (nat (getClassCount c)) (increaseIndent st0))
            (\<lambda>_ st1. decreaseIndent st1)
      | None \<Rightarrow> decreaseIndent (increaseIndent st0))"

definition readNewObject :: "calls \<Rightarrow> SerializedObjectParser \<Rightarrow> unit outcome" where
  "readNewObject w st0 =
     (case Smooth_pop st0 of (b1, st1) \<Rightarrow>
        if b1 \<noteq> TC_OBJECT then Panicln ''Error: Illegal value for TC_OBJECT (should be 0x73)''
        else seq (readClassDesc w (increaseIndent st1)) (\<lambda>cdd st2.
             case newHandle1 st2 of (h, st3) \<Rightarrow>
               seq (readClassData w cdd st3) (\<lambda>_ st4. decreaseIndent st4)))"

definition readNewClass :: "calls \<Rightarrow> SerializedObjectParser \<Rightarrow> unit outcome" where
  "readNewClass w st0 =
     (case Smooth_pop st0 of (b1, st1) \<Rightarrow>
        if b1 \<noteq> TC_CLASS then Panicln ''Error: Illegal value for TC_CLASS (should be 0x76)''
        else seq (readClassDesc w (increaseIndent st1)) (\<lambda>cdd st2.
             seq (decreaseIndent st2) (\<lambda>_ st3. Returned () (snd (newHandle1 st3)))))"

text \<open>
  \<open>readNewArray\<close>: the element loop runs \<open>size\<close> times and reads each element with the
  type code \<open>cd.getClassName()[0:1]\<close>, the first byte of the class name.
\<close>

fun readNewArray_values ::
  "calls \<Rightarrow> nat \<Rightarrow> byte \<Rightarrow> SerializedObjectParser \<Rightarrow> unit outcome" where
  "readNewArray_values w 0 tc st = Returned () st"
| "readNewArray_values w (Suc k) tc st =
     seq (readFieldValue w tc (increaseIndent st)) (\<lambda>_ st1.
     seq (decreaseIndent st1) (\<lambda>_ st2. readNewArray_values w k tc st2))"

definition readNewArray :: "calls \<Rightarrow> SerializedObjectParser \<Rightarrow> unit outcome" where
  "readNewArray w st0 =
     (case Smooth_pop st0 of (b1, st1) \<Rightarrow>
        if b1 \<noteq> TC_ARRAY then Panicln ''Error: Illegal value for TC_ARRAY (should be 0x75)''
        else seq (readClassDesc w (increaseIndent st1)) (\<lambda>cdd st2.
          case cdd of
            None \<Rightarrow> Panicked NilDereference
          | Some c \<Rightarrow>
              if getClassCount c \<noteq> 1
              then Panicln ''Error: Array class description made up of more than one class.''
              else (case getClassDetails c 0 of
                None \<Rightarrow> Panicked NilDereference
              | Some cd \<Rightarrow>
                  if length (className cd) < 1 then Panicked SliceOutOfRange
                  else if take 1 (className cd) \<noteq> [code_Array]
                  then Panicln ''Error: Array class name does not begin with [.''
                  else (case newHandle1 st2 of (h, st3) \<Rightarrow>
                        case pops 4 st3 of (bs, st4) \<Rightarrow>
                          seq (readNewArray_values w (unat (uint32Length bs))
                                 (className cd ! 0) (increaseIndent st4)) (\<lambda>_ st5.
                          seq (decreaseIndent st5) (\<lambda>_ st6. decreaseIndent st6))))))"

definition readNewEnum :: "calls \<Rightarrow> SerializedObjectParser \<Rightarrow> unit outcome" where
  "readNewEnum w st0 =
     (case Smooth_pop st0 of (b1, st1) \<Rightarrow>
        if b1 \<noteq> TC_ENUM then Panicln ''Error: Illegal value for TC_ENUM (should be 0x7e)''
        else seq (readClassDesc w (increaseIndent st1)) (\<lambda>cdd st2.
             case newHandle1 st2 of (h, st3) \<Rightarrow>
               seq (readNewString st3) (\<lambda>_ st4. decreaseIndent st4)))"

definition readArrayField :: "calls \<Rightarrow> SerializedObjectParser \<Rightarrow> unit outcome" where
  "readArrayField w st0 =
     (case Smooth_peek (increaseIndent st0) of (b, st1) \<Rightarrow>
        seq (if b = TC_NULL then readNullReference st1
             else if b = TC_ARRAY then readNewArray w st1
             else if b = TC_REFERENCE then seq (readPrevObject st1) discard
             else Panicln ''Error: Unexpected array field value type'') (\<lambda>_ st2.
          decreaseIndent st2))"

definition readObjectField :: "calls \<Rightarrow> SerializedObjectParser \<Rightarrow> unit outcome" where
  "readObjectField w st0 =
     (case Smooth_peek (increaseIndent st0) of (b, st1) \<Rightarrow>
        seq (if b = TC_OBJECT then readNewObject w st1
             else if b = TC_REFERENCE then seq (readPrevObject st1) discard
             else if b = TC_NULL then readNullReference st1
             else if b = TC_STRING then seq (readTC_STRING st1) discard
             else if b = TC_CLASS then readNewClass w st1
             else if b = TC_ARRAY then readNewArray w st1
             else if b = TC_ENUM then readNewEnum w st1
             else Panicln ''Error: Unexpected identifier for object field value'') (\<lambda>_ st2.
          decreaseIndent st2))"

text \<open>\<open>readFieldValue\<close>, one call deep.\<close>

definition readFieldValue_body :: "calls \<Rightarrow> byte \<Rightarrow> SerializedObjectParser \<Rightarrow> unit outcome" where
  "readFieldValue_body w tc st =
     (if tc = code_B then Returned () (readByteField st)
      else if tc = code_C then Returned () (readCharField st)
      else if tc = code_D then Returned () (readDoubleField st)
      else if tc = code_F then Returned () (readFloatField st)
      else if tc = code_I then Returned () (readIntField st)
      else if tc = code_J then Returned () (readLongField st)
      else if tc = code_S then Returned () (readShortField st)
      else if tc = code_Z then Returned () (readBooleanField st)
      else if tc = code_Array then readArrayField w st
      else if tc = code_L then readObjectField w st
      else Panicln ''Error: Illegal field type code'')"

text \<open>
  \<open>readContentElement\<close>, one call deep. In its \<open>switch\<close> the cases \<open>TC_STRING\<close> and
  \<open>TC_CLASSDESC\<close> have an empty body, and a Go \<open>case\<close> does not fall through to the
  next one: for these two tags the function returns \<open>nil\<close> and has read nothing.
\<close>

definition readContentElement_body ::
  "calls \<Rightarrow> SerializedObjectParser \<Rightarrow> error option outcome" where
  "readContentElement_body w st0 =
     (case Smooth_peek st0 of (b, st1) \<Rightarrow>
        if b = TC_OBJECT then seq (readNewObject w st1) noError
        else if b = TC_CLASS then seq (readNewClass w st1) noError
        else if b = TC_ARRAY then seq (readNewArray w st1) noError
        else if b = TC_STRING then Returned None st1
        else if b = TC_LONGSTRING then seq (readNewString st1) noError
        else if b = TC_ENUM then seq (readNewEnum w st1) noError
        else if b = TC_CLASSDESC then Returned None st1
        else if b = TC_PROXYCLASSDESC then seq (readNewClassDesc w st1) noError
        else if b = TC_REFERENCE then seq (readPrevObject st1) noError
        else if b = TC_NULL then seq (readNullReference st1) noError
        else if b = TC_EXCEPTION then Returned None (readException st1)
        else if b = TC_RESET then Returned None (handleReset st1)
        else if b = TC_BLOCKDATA then seq (readBlockData st1) noError
        else if b = TC_BLOCKDATALONG then seq (readLongBlockData st1) noError
        else Returned (Some (New ''Error: Illegal content element type.'')) st1)"

text \<open>
  \<open>walker n\<close>: the three functions with \<open>n\<close> nested calls left. With none left a call
  is \<open>OutOfFuel\<close>; \<open>deeper w\<close> allows one more nested call than \<open>w\<close>.
\<close>

definition noCalls :: calls where
  "noCalls =
     \<lparr>fuel = 0,
      readContentElement = (\<lambda>st. OutOfFuel),
      readClassDesc = (\<lambda>st. OutOfFuel),
      readFieldValue = (\<lambda>tc st. OutOfFuel)\<rparr>"

definition deeper :: "calls \<Rightarrow> calls" where
  "deeper w =
     \<lparr>fuel = Suc (fuel w),
      readContentElement = readContentElement_body w,
      readClassDesc = readClassDesc_body w,
      readFieldValue = readFieldValue_body w\<rparr>"

primrec walker :: "nat \<Rightarrow> calls" where
  "walker 0 = noCalls"
| "walker (Suc n) = deeper (walker n)"

section \<open>Entry points\<close>

text \<open>
  The content loop of \<open>parseStream\<close>: \<open>for this._data.size() > 0\<close>, left by \<open>break\<close>
  when \<open>readContentElement\<close> returns an error; \<open>k\<close> bounds its iterations.
\<close>

fun parseStream_contents :: "nat \<Rightarrow> calls \<Rightarrow> SerializedObjectParser \<Rightarrow> unit outcome" where
  "parseStream_contents 0 w st = (if Smooth_size st > 0 then OutOfFuel else Returned () st)"
| "parseStream_contents (Suc k) w st =
     (if Smooth_size st > 0
      then seq (readContentElement w st) (\<lambda>err st1.
             if err \<noteq> None then Returned () st1 else parseStream_contents k w st1)
      else Returned () st)"

text \<open>
  \<open>parseStream\<close>. When the first byte is not \<open>STREAM_MAGIC1\<close> it is popped, and the
  \<open>switch\<close> that follows only chooses the line to print: one of the five RMI packet
  names, or \<open>Unknown RMI packet type\<close> in its \<open>default\<close> case. After a wrong magic
  number the function returns; after a wrong version it prints a line and goes on.
\<close>

definition parseStream :: "nat \<Rightarrow> SerializedObjectParser \<Rightarrow> unit outcome" where
  "parseStream n st0 =
     (case Smooth_peek st0 of (p, st1) \<Rightarrow>
      case (if p \<noteq> STREAM_MAGIC1 then Smooth_pop st1 else (p, st1)) of (p1, st2) \<Rightarrow>
      case Smooth_pop st2 of (b1, st3) \<Rightarrow>
      case Smooth_pop st3 of (b2, st4) \<Rightarrow>
        if b1 \<noteq> STREAM_MAGIC1 \<or> b2 \<noteq> STREAM_MAGIC2 then Returned () st4
        else (case Smooth_pop st4 of (v1, st5) \<Rightarrow>
              case Smooth_pop st5 of (v2, st6) \<Rightarrow>
                seq (parseStream_contents n (walker n) (increaseIndent st6)) (\<lambda>_ st7.
                  decreaseIndent st7)))"

text \<open>
  The function \<open>ParseSerializedObject(buf)\<close>: it builds the parser with
  \<open>maxDataBlockSize = len(buf)\<close>, calls \<open>parseStream\<close> and executes \<open>return nil, nil\<close>.
\<close>

definition ParseSerializedObject :: "nat \<Rightarrow> byte list \<Rightarrow> (val list \<times> error option) outcome" where
  "ParseSerializedObject n buf =
     seq (parseStream n (NewSerializedObjectParser buf (int (length buf)))) (\<lambda>_ st.
       Returned ([], None) st)"

text \<open>
  \<open>content\<close>, which the method \<open>ParseSerializedObject\<close> calls for each element. Its
  parameter \<open>allowedNames\<close> is not used. Every path ends in \<open>return nil, nil\<close>.
\<close>

definition content :: "nat \<Rightarrow> SerializedObjectParser \<Rightarrow> (val \<times> error option) outcome" where
  "content n st0 =
     (case Smooth_peek st0 of (tc, st1) \<Rightarrow>
        (let st2 = st1\<lparr>so := (so st1)\<lparr>so_Tc_Type := tc\<rparr>\<rparr>; w = walker n in
         seq (if tc = TC_NULL then readNullReference st2
              else if tc = TC_REFERENCE then seq (readPrevObject st2) discard
              else if tc = TC_CLASSDESC \<or> tc = TC_PROXYCLASSDESC
              then seq (readNewClassDesc w st2) discard
              else if tc = TC_OBJECT then readNewObject w st2
              else if tc = TC_STRING \<or> tc = TC_LONGSTRING then seq (readNewString st2) discard
              else if tc = TC_ARRAY then readNewArray w st2
              else if tc = TC_CLASS then readNewClass w st2
              else if tc = TC_BLOCKDATA then readBlockData st2
              else if tc = TC_ENDBLOCKDATA then Returned () st2
              else if tc = TC_RESET then Returned () (handleReset st2)
              else if tc = TC_BLOCKDATALONG then readLongBlockData st2
              else if tc = TC_EXCEPTION then Returned () (readException st2)
              else if tc = TC_ENUM then readNewEnum w st2
              else Returned () st2) (\<lambda>_ st3. Returned (VNil, None) st3)))"

text \<open>\<open>end\<close>: no byte is left in the reader.\<close>

definition end_rd :: "SerializedObjectParser \<Rightarrow> bool" where
  "end_rd st \<longleftrightarrow> rd st = []"

text \<open>
  The text of an error, \<open>err.Error()\<close>; for \<open>Errorf\<close> the format string stands for
  the formatted text.
\<close>

fun Error_text :: "error \<Rightarrow> string" where
  "Error_text EOF = ''EOF''"
| "Error_text ErrUnexpectedEOF = ''unexpected EOF''"
| "Error_text (New m) = m"
| "Error_text (Errorf m args) = m"
| "Error_text (Wrap e m) = m @ '': '' @ Error_text e"

text \<open>
  The method \<open>ParseSerializedObject\<close>: \<open>magic\<close>, \<open>version\<close>, then the loop
  \<open>for !this.end()\<close> that appends what \<open>content\<close> returns; \<open>k\<close> bounds its iterations.
\<close>

fun ParseSerializedObject_loop ::
  "nat \<Rightarrow> nat \<Rightarrow> val list \<Rightarrow> SerializedObjectParser \<Rightarrow> (val list \<times> error option) outcome" where
  "ParseSerializedObject_loop 0 n cs st =
     (if \<not> end_rd st then OutOfFuel else Returned (cs, None) st)"
| "ParseSerializedObject_loop (Suc k) n cs st =
     (if \<not> end_rd st
      then seq (content n st) (\<lambda>(nxt, err) st1.
             case err of
               Some e \<Rightarrow>
                 Returned (cs, Some (if Error_text (Cause e) = Error_text EOF
                                     then New ''premature end of input'' else e)) st1
             | None \<Rightarrow> ParseSerializedObject_loop k n (cs @ [nxt]) st1)
      else Returned (cs, None) st)"

definition ParseSerializedObject_method ::
  "nat \<Rightarrow> SerializedObjectParser \<Rightarrow> (val list \<times> error option) outcome" where
  "ParseSerializedObject_method n st0 =
     (case magic st0 of
        (Some e, st1) \<Rightarrow> Returned ([], Some e) st1
      | (None, st1) \<Rightarrow>
          (case version st1 of
             (Some e, st2) \<Rightarrow> Returned ([], Some e) st2
           | (None, st2) \<Rightarrow> ParseSerializedObject_loop n n [] st2))"

section \<open>Notions used in the statements\<close>

text \<open>What a run hands back to its caller, and the state it leaves, if it returns.\<close>

definition result :: "'a outcome \<Rightarrow> 'a option" where
  "result m = (case m of Returned x st \<Rightarrow> Some x | Panicked p \<Rightarrow> None | OutOfFuel \<Rightarrow> None)"

definition final :: "'a outcome \<Rightarrow> SerializedObjectParser option" where
  "final m = (case m of Returned x st \<Rightarrow> Some st | Panicked p \<Rightarrow> None | OutOfFuel \<Rightarrow> None)"

text \<open>
  The flag bytes that the specification rules out: serializable together with
  externalizable, serializable with block data, externalizable with a write method, and
  a byte that is not zero with neither of the first two set.
\<close>

definition hasFlag :: "byte \<Rightarrow> byte \<Rightarrow> bool" where
  "hasFlag b f \<longleftrightarrow> (b AND f) = f"

definition illegalClassDescFlags :: "byte \<Rightarrow> bool" where
  "illegalClassDescFlags b \<longleftrightarrow>
     (hasFlag b SC_SERIALIZABLE \<and> hasFlag b SC_EXTERNALIZABLE) \<or>
     (hasFlag b SC_SERIALIZABLE \<and> hasFlag b SC_BLOCK_DATA) \<or>
     (hasFlag b SC_EXTERNALIZABLE \<and> hasFlag b SC_WRITE_METHOD) \<or>
     (\<not> hasFlag b SC_SERIALIZABLE \<and> \<not> hasFlag b SC_EXTERNALIZABLE \<and> b \<noteq> 0)"

text \<open>
  The stream of the specification's scenario "Reset clears handles": the string \<open>A\<close>,
  \<open>TC_RESET\<close>, the string \<open>B\<close>, and a reference to the handle \<open>0x7E0000\<close>.
\<close>

definition reset_stream :: "byte list" where
  "reset_stream =
     [0xAC, 0xED, 0x00, 0x05, 0x74, 0x00, 0x01, 0x41, 0x79,
      0x74, 0x00, 0x01, 0x42, 0x71, 0x00, 0x7E, 0x00, 0x00]"

text \<open>
  A stream with an object of a class \<open>A\<close> (no fields, no super class) followed by an
  object whose class descriptor is a reference to the handle \<open>0x7E0000\<close> of that class.
\<close>

definition class_reference_stream :: "byte list" where
  "class_reference_stream =
     [0xAC, 0xED, 0x00, 0x05,
      0x73, 0x72, 0x00, 0x01, 0x41, 1, 2, 3, 4, 5, 6, 7, 8, 0x02, 0x00, 0x00, 0x78, 0x70,
      0x73, 0x71, 0x00, 0x7E, 0x00, 0x00]"

section \<open>Notions used in the proofs\<close>

text \<open>
  \<open>withMax m st\<close> is the state \<open>st\<close> with \<open>maxDataBlockSize\<close> set to \<open>m\<close>, and \<open>mapS u r\<close>
  is the run \<open>r\<close> with \<open>u\<close> applied to the state it leaves. \<open>framed w\<close>: the three
  functions of \<open>w\<close> do not depend on \<open>maxDataBlockSize\<close> and do not change it.
\<close>

definition withMax :: "int \<Rightarrow> SerializedObjectParser \<Rightarrow> SerializedObjectParser" where
  "withMax m st = st\<lparr>maxDataBlockSize := m\<rparr>"

definition mapS ::
  "(SerializedObjectParser \<Rightarrow> SerializedObjectParser) \<Rightarrow> 'a outcome \<Rightarrow> 'a outcome" where
  "mapS u r =
     (case r of Returned x st \<Rightarrow> Returned x (u st) | Panicked p \<Rightarrow> Panicked p
      | OutOfFuel \<Rightarrow> OutOfFuel)"

definition framed :: "calls \<Rightarrow> bool" where
  "framed w \<longleftrightarrow>
     (\<forall>m st. readContentElement w (withMax m st) = mapS (withMax m) (readContentElement w st)) \<and>
     (\<forall>m st. readClassDesc w (withMax m st) = mapS (withMax m) (readClassDesc w st)) \<and>
     (\<forall>m tc st. readFieldValue w tc (withMax m st) = mapS (withMax m) (readFieldValue w tc st))"

text \<open>
  The \<open>budget\<close> of a state bounds the value that \<open>nPos\<close> can reach: \<open>nPos\<close> itself,
  plus the bytes left in the reader, plus the bytes in the lookahead. A state \<open>fits\<close> a
  bound when its budget is within it and the lookahead is empty, and is \<open>loose\<close> when
  the lookahead holds at most one byte. \<open>within\<close>, \<open>withinL\<close> and \<open>withinC\<close> say this of
  the state that a run leaves, the latter for a run of \<open>readContentElement\<close> without an
  error.
\<close>

definition budget :: "SerializedObjectParser \<Rightarrow> int" where
  "budget st = nPos st + int (length (rd st)) + int (length (data st))"

definition fits :: "int \<Rightarrow> SerializedObjectParser \<Rightarrow> bool" where
  "fits K st \<longleftrightarrow> budget st \<le> K \<and> data st = []"

definition loose :: "int \<Rightarrow> SerializedObjectParser \<Rightarrow> bool" where
  "loose K st \<longleftrightarrow> budget st \<le> K \<and> length (data st) \<le> 1"

definition within :: "int \<Rightarrow> 'a outcome \<Rightarrow> bool" where
  "within K r =
     (case r of Returned x st \<Rightarrow> fits K st | Panicked p \<Rightarrow> True | OutOfFuel \<Rightarrow> True)"

definition withinL :: "int \<Rightarrow> 'a outcome \<Rightarrow> bool" where
  "withinL K r = (case r of Returned x st \<Rightarrow> loose K st | _ \<Rightarrow> True)"

definition withinC :: "int \<Rightarrow> error option outcome \<Rightarrow> bool" where
  "withinC K r = (case r of Returned None st \<Rightarrow> loose K st | _ \<Rightarrow> True)"

text \<open>
  \<open>kept w\<close>: the three functions of \<open>w\<close> keep a state within its bound; an error of
  \<open>readContentElement\<close> leaves a state with a byte in the lookahead as it is, and a zero
  byte in the lookahead is such an error.
\<close>

definition kept :: "calls \<Rightarrow> bool" where
  "kept w \<longleftrightarrow>
     (\<forall>K st. loose K st \<longrightarrow> within K (readClassDesc w st)) \<and>
     (\<forall>K tc st. loose K st \<longrightarrow> within K (readFieldValue w tc st)) \<and>
     (\<forall>K st. loose K st \<longrightarrow> withinC K (readContentElement w st)) \<and>
     (\<forall>st e st'. data st \<noteq> [] \<longrightarrow> readContentElement w st = Returned (Some e) st' \<longrightarrow> st' = st) \<and>
     (\<forall>st. data st \<noteq> [] \<longrightarrow> hd (data st) = 0 \<longrightarrow>
        readContentElement w st = OutOfFuel \<or>
        (\<exists>e. readContentElement w st = Returned (Some e) st))"

section \<open>Basic facts about the model\<close>

lemmas tag_defs = TC_NULL_def TC_REFERENCE_def TC_CLASSDESC_def TC_OBJECT_def TC_STRING_def
  TC_ARRAY_def TC_CLASS_def TC_BLOCKDATA_def TC_ENDBLOCKDATA_def TC_RESET_def
  TC_BLOCKDATALONG_def TC_EXCEPTION_def TC_LONGSTRING_def TC_PROXYCLASSDESC_def TC_ENUM_def

lemmas reader_defs = Smooth_pop_def Smooth_peek_def Smooth_add_def readUInt8_def readUInt16_def
  ReadFull_def be16_def

lemmas string_defs = readNewString_def readTC_STRING_def readUtf_def utfLength_def newHandle1_def
  increaseIndent_def decreaseIndent_def seq_def discard_def Sprintf_c_def

lemmas prelude_defs = ParseSerializedObject_method_def magic_def version_def
  NewSerializedObjectParser_def STREAM_MAGIC_def STREAM_VERSION_def end_rd_def

lemma calls_deeper [simp]:
  "readContentElement (deeper w) = readContentElement_body w"
  "readClassDesc (deeper w) = readClassDesc_body w"
  "readFieldValue (deeper w) = readFieldValue_body w"
  "fuel (deeper w) = Suc (fuel w)"
  by (simp_all add: deeper_def)

lemma calls_noCalls [simp]:
  "readContentElement noCalls st = OutOfFuel"
  "readClassDesc noCalls st = OutOfFuel"
  "readFieldValue noCalls tc st = OutOfFuel"
  "fuel noCalls = 0"
  by (simp_all add: noCalls_def)

lemma fuel_walker: "fuel (walker n) = n"
  by (induction n) simp_all

lemma Smooth_peek_buffered: "data st = b # ds \<Longrightarrow> Smooth_peek st = (b, st)"
  by (simp add: Smooth_peek_def)

lemma Smooth_pop_at_end: "data st = [] \<Longrightarrow> rd st = [] \<Longrightarrow> Smooth_pop st = (0, st)"
  by (simp add: Smooth_pop_def readUInt8_def ReadFull_def)

lemma Smooth_peek_at_end:
  "data st = [] \<Longrightarrow> rd st = [] \<Longrightarrow> Smooth_peek st = (0, st\<lparr>data := [0]\<rparr>)"
  by (simp add: Smooth_peek_def Smooth_add_def readUInt8_def ReadFull_def)

section \<open>The top-level call\<close>

lemma ParseSerializedObject_result:
  "result (ParseSerializedObject n buf) = None \<or>
   result (ParseSerializedObject n buf) = Some ([], None)"
  by (simp add: ParseSerializedObject_def seq_def result_def split: outcome.splits)

text \<open>
  C1. The claim: the top-level call returns the list of the top-level content elements
  decoded from the buffer, and the error when the parse fails. The code: whenever
  \<open>ParseSerializedObject\<close> returns, it returns the pair \<open>nil, nil\<close>. For \<open>AC ED 00 05 70\<close>,
  where the specification expects the one element \<open>Null\<close>, it returns no element, and for
  \<open>DE AD 00 05 70\<close>, whose magic number is wrong, it returns no error.
\<close>

theorem ParseSerializedObject_returns_nil_nil:
  "(result (ParseSerializedObject n buf) = None \<or>
    result (ParseSerializedObject n buf) = Some ([], None)) \<and>
   result (ParseSerializedObject 5 [0xAC, 0xED, 0x00, 0x05, 0x70]) = Some ([], None) \<and>
   result (ParseSerializedObject 5 [0xDE, 0xAD, 0x00, 0x05, 0x70]) = Some ([], None)"
proof (intro conjI)
  show "result (ParseSerializedObject n buf) = None \<or>
        result (ParseSerializedObject n buf) = Some ([], None)"
    by (rule ParseSerializedObject_result)
  show "result (ParseSerializedObject 5 [0xAC, 0xED, 0x00, 0x05, 0x70]) = Some ([], None)"
    by code_simp
  show "result (ParseSerializedObject 5 [0xDE, 0xAD, 0x00, 0x05, 0x70]) = Some ([], None)"
    by code_simp
qed

section \<open>RESET\<close>

lemma handleReset_keeps_state: "handleReset st = st"
  by (simp add: handleReset_def)

lemma content_RESET:
  assumes "data st = TC_RESET # ds"
  shows "content n st = Returned (VNil, None) (st\<lparr>so := (so st)\<lparr>so_Tc_Type := TC_RESET\<rparr>\<rparr>)"
  using assms
  by (simp add: content_def Smooth_peek_buffered handleReset_def seq_def Let_def tag_defs)

lemma content_RESET_unpeeked:
  assumes "data st = []" "rd st \<noteq> []" "hd (rd st) = TC_RESET"
  shows "content n st = Returned (VNil, None)
           (st\<lparr>rd := tl (rd st), data := [TC_RESET], so := (so st)\<lparr>so_Tc_Type := TC_RESET\<rparr>\<rparr>)"
proof -
  from assms obtain r where r: "rd st = TC_RESET # r" by (cases "rd st") auto
  with assms(1) show ?thesis
    by (simp add: content_def reader_defs handleReset_def seq_def Let_def tag_defs)
qed

lemma loop_RESET:
  "data st = TC_RESET # ds \<Longrightarrow> rd st \<noteq> [] \<Longrightarrow>
   ParseSerializedObject_loop k n cs st = OutOfFuel"
proof (induction k arbitrary: cs st)
  case 0
  then show ?case by (simp add: end_rd_def)
next
  case (Suc k)
  let ?st = "st\<lparr>so := (so st)\<lparr>so_Tc_Type := TC_RESET\<rparr>\<rparr>"
  have c: "content n st = Returned (VNil, None) ?st"
    using Suc.prems(1) by (rule content_RESET)
  have "ParseSerializedObject_loop k n (cs @ [VNil]) ?st = OutOfFuel"
    using Suc.prems by (intro Suc.IH) simp_all
  with c Suc.prems show ?case
    by (simp add: end_rd_def seq_def)
qed

lemma loop_RESET_unpeeked:
  assumes "data st = []" "rd st \<noteq> []" "hd (rd st) = TC_RESET" "tl (rd st) \<noteq> []"
  shows "ParseSerializedObject_loop k n cs st = OutOfFuel"
proof (cases k)
  case 0
  with assms show ?thesis by (simp add: end_rd_def)
next
  case (Suc j)
  let ?st = "st\<lparr>rd := tl (rd st), data := [TC_RESET], so := (so st)\<lparr>so_Tc_Type := TC_RESET\<rparr>\<rparr>"
  have "ParseSerializedObject_loop j n (cs @ [VNil]) ?st = OutOfFuel"
    using assms by (intro loop_RESET) simp_all
  with Suc assms show ?thesis
    by (simp add: end_rd_def seq_def content_RESET_unpeeked)
qed

lemma method_reset_stream:
  "ParseSerializedObject_method n (NewSerializedObjectParser reset_stream 18) = OutOfFuel"
proof (cases n)
  case 0
  then show ?thesis
    by (simp add: prelude_defs reader_defs reset_stream_def)
next
  case (Suc k)
  then show ?thesis
    by (simp add: prelude_defs reader_defs reset_stream_def content_def string_defs tag_defs
        Let_def loop_RESET_unpeeked)
qed

text \<open>
  In \<open>readContentElement\<close> four tags leave the parser as it is: \<open>TC_STRING\<close> and
  \<open>TC_CLASSDESC\<close> (empty case), \<open>TC_EXCEPTION\<close> and \<open>TC_RESET\<close> (empty function).
\<close>

lemma readContentElement_body_no_progress:
  assumes "data st = b # ds" "b \<in> {TC_STRING, TC_CLASSDESC, TC_EXCEPTION, TC_RESET}"
  shows "readContentElement_body w st = Returned None st"
  using assms
  by (auto simp: readContentElement_body_def Smooth_peek_buffered handleReset_def
      readException_def tag_defs)

lemma parseStream_contents_no_progress:
  assumes "data st = b # ds" "b \<in> {TC_STRING, TC_CLASSDESC, TC_EXCEPTION, TC_RESET}"
    "Smooth_size st > 0"
  shows "parseStream_contents k (walker n) st = OutOfFuel"
  using assms
proof (induction k)
  case 0
  then show ?case by simp
next
  case (Suc k)
  show ?case
  proof (cases n)
    case 0
    with Suc.prems show ?thesis by (simp add: seq_def)
  next
    case (Suc m)
    have "readContentElement_body (walker m) st = Returned None st"
      using Suc.prems(1,2) by (rule readContentElement_body_no_progress)
    with Suc Suc.prems Suc.IH show ?thesis by (simp add: seq_def)
  qed
qed

lemma function_reset_stream: "ParseSerializedObject n reset_stream = OutOfFuel"
proof (cases n)
  case 0
  then show ?thesis
    by (simp add: ParseSerializedObject_def parseStream_def reader_defs reset_stream_def
        NewSerializedObjectParser_def STREAM_MAGIC1_def STREAM_MAGIC2_def increaseIndent_def
        Smooth_size_def seq_def)
next
  case (Suc m)
  let ?st = "\<lparr>rd = [0x00, 0x01, 0x41, 0x79, 0x74, 0x00, 0x01, 0x42, 0x71, 0x00, 0x7E, 0x00, 0x00],
     handles = [], maxDataBlockSize = 18, handleValue = 0x7e0000, indent = ''  '',
     classDataDescriptions = [], data = [TC_STRING], nPos = 1,
     so = \<lparr>so_STREAM_MAGIC = 0, so_STREAM_VERSION = 0, so_Tc_Type = 0\<rparr>\<rparr>"
  have "parseStream_contents m (walker (Suc m)) ?st = OutOfFuel"
    by (rule parseStream_contents_no_progress [where b = TC_STRING and ds = "[]"])
       (simp_all add: Smooth_size_def)
  with Suc show ?thesis
    by (simp add: ParseSerializedObject_def parseStream_def reader_defs reset_stream_def
        NewSerializedObjectParser_def STREAM_MAGIC1_def STREAM_MAGIC2_def increaseIndent_def
        Smooth_size_def seq_def readContentElement_body_def tag_defs)
qed

text \<open>
  C2. The claim: a consumed \<open>TC_RESET\<close> empties the handle table and the class
  descriptions, so that on the stream of the scenario the trailing reference resolves to
  the string \<open>B\<close>. The code: \<open>handleReset\<close> has an empty body, it changes nothing and does
  not take the tag from the input, and neither the method nor the function
  \<open>ParseSerializedObject\<close> returns on that stream, whatever the number of steps allowed.
\<close>

theorem reset_stream_never_returns:
  "handleReset st = st \<and>
   ParseSerializedObject_method n (NewSerializedObjectParser reset_stream 18) = OutOfFuel \<and>
   ParseSerializedObject n reset_stream = OutOfFuel"
  by (simp only: handleReset_keeps_state method_reset_stream function_reset_stream)

section \<open>References to class descriptors\<close>

lemma buildClassDataDescFromIndex_whole: "buildClassDataDescFromIndex cdd i = cdd"
  by (simp add: buildClassDataDescFromIndex_def NewClassDataDesc1_def)

text \<open>
  The class at index 0 is never compared with the handle: in a class data description
  with one class the search ends in the call of \<open>getHandle\<close> on the nil pointer,
  whatever the handle is.
\<close>

lemma findClass_single:
  assumes "classDetails cdd = [cd]"
  shows "findClass cdd h 0 = Some (Inl NilDereference)"
  using assms by (simp add: findClass.simps getClassCount_def getClassDetails_def)

text \<open>
  C3. The claim: a \<open>TC_REFERENCE\<close> read by \<open>readClassDesc\<close> resolves to the recorded class
  with that handle, the first class of a class data description included, and yields the
  classes from the matched index on. The code: \<open>buildClassDataDescFromIndex\<close> returns the
  whole list for every index (a reference to the second class \<open>B\<close> of \<open>[A, B]\<close> yields
  \<open>[A, B]\<close>); a reference to the only class of a description ends in a nil dereference,
  in the search alone and in the parse of a stream with such a reference.
\<close>

theorem classDesc_reference_search:
  "buildClassDataDescFromIndex cdd i = cdd \<and>
   findClassDataDesc
     [\<lparr>classDetails = [(NewClassDetails [0x41])\<lparr>refHandle := 0x7e0000\<rparr>]\<rparr>] 0x7e0000
     = Some (Inl NilDereference) \<and>
   findClassDataDesc
     [\<lparr>classDetails = [(NewClassDetails [0x41])\<lparr>refHandle := 0x7e0000\<rparr>,
                       (NewClassDetails [0x42])\<lparr>refHandle := 0x7e0001\<rparr>]\<rparr>] 0x7e0001
     = Some (Inr \<lparr>classDetails = [(NewClassDetails [0x41])\<lparr>refHandle := 0x7e0000\<rparr>,
                                  (NewClassDetails [0x42])\<lparr>refHandle := 0x7e0001\<rparr>]\<rparr>) \<and>
   ParseSerializedObject 10 class_reference_stream = Panicked NilDereference"
proof (intro conjI)
  show "buildClassDataDescFromIndex cdd i = cdd"
    by (rule buildClassDataDescFromIndex_whole)
  show "findClassDataDesc
     [\<lparr>classDetails = [(NewClassDetails [0x41])\<lparr>refHandle := 0x7e0000\<rparr>]\<rparr>] 0x7e0000
     = Some (Inl NilDereference)"
    by (simp add: findClass_single)
  show "findClassDataDesc
     [\<lparr>classDetails = [(NewClassDetails [0x41])\<lparr>refHandle := 0x7e0000\<rparr>,
                       (NewClassDetails [0x42])\<lparr>refHandle := 0x7e0001\<rparr>]\<rparr>] 0x7e0001
     = Some (Inr \<lparr>classDetails = [(NewClassDetails [0x41])\<lparr>refHandle := 0x7e0000\<rparr>,
                                  (NewClassDetails [0x42])\<lparr>refHandle := 0x7e0001\<rparr>]\<rparr>)"
    by code_simp
  show "ParseSerializedObject 10 class_reference_stream = Panicked NilDereference"
    by code_simp
qed

section \<open>References to handles\<close>

text \<open>
  C4, as the specification states it, fails: for the wire handle \<open>0x7E0000\<close> and an
  empty handle table \<open>parseReference\<close> returns \<open>nil\<close> and no error.
\<close>

theorem parseReference_out_of_range_counterexample:
  "parseReference (NewSerializedObjectParser [0x00, 0x7E, 0x00, 0x00] 4)
     = (VNil, None, NewSerializedObjectParser [] 4)"
  by code_simp

text \<open>
  C4, amended: for every reference whose wire handle, after the subtraction of
  \<open>0x7E0000\<close> in \<open>int32\<close>, is not the index of an entry of the handle table,
  \<open>parseReference\<close> returns the absent value \<open>nil\<close> and no error, having read the four
  bytes of the handle.
\<close>

theorem parseReference_out_of_range:
  assumes "4 \<le> length (rd st)"
    and "\<not> (-1 < sint (be32 (take 4 (rd st)) - refIDMask) \<and>
            sint (be32 (take 4 (rd st)) - refIDMask) < int (length (handles st)))"
  shows "parseReference st = (VNil, None, st\<lparr>rd := drop 4 (rd st)\<rparr>)"
  using assms by (auto simp: parseReference_def readInt32_def ReadFull_def Let_def)

theorem parseReference_out_of_range_witness:
  "4 \<le> length (rd (NewSerializedObjectParser [0x00, 0x7E, 0x00, 0x05] 4)) \<and>
   \<not> (-1 < sint (be32 (take 4 (rd (NewSerializedObjectParser [0x00, 0x7E, 0x00, 0x05] 4)))
                 - refIDMask) \<and>
      sint (be32 (take 4 (rd (NewSerializedObjectParser [0x00, 0x7E, 0x00, 0x05] 4)))
              - refIDMask)
        < int (length (handles (NewSerializedObjectParser [0x00, 0x7E, 0x00, 0x05] 4)))) \<and>
   parseReference (NewSerializedObjectParser [0x00, 0x7E, 0x00, 0x05] 4)
     = (VNil, None, NewSerializedObjectParser [] 4)"
proof -
  let ?st = "NewSerializedObjectParser [0x00, 0x7E, 0x00, 0x05] 4"
  have len: "4 \<le> length (rd ?st)"
    by (simp add: NewSerializedObjectParser_def)
  have out: "\<not> (-1 < sint (be32 (take 4 (rd ?st)) - refIDMask) \<and>
                sint (be32 (take 4 (rd ?st)) - refIDMask) < int (length (handles ?st)))"
    by (simp add: NewSerializedObjectParser_def)
  have "parseReference ?st = (VNil, None, ?st\<lparr>rd := drop 4 (rd ?st)\<rparr>)"
    using len out by (rule parseReference_out_of_range)
  moreover have "?st\<lparr>rd := drop 4 (rd ?st)\<rparr> = NewSerializedObjectParser [] 4"
    by (simp add: NewSerializedObjectParser_def)
  ultimately show ?thesis using len out by simp
qed

section \<open>The stream version\<close>

lemma version_checks_low_byte:
  "fst (version st) = None \<longleftrightarrow> 2 \<le> length (rd st) \<and> rd st ! 1 = 5"
proof (cases "2 \<le> length (rd st)")
  case False
  then show ?thesis
    by (simp add: version_def readUInt16_def ReadFull_def)
next
  case True
  then obtain a b r where r: "rd st = a # b # r"
    by (cases "rd st"; cases "tl (rd st)") auto
  have "(ucast (push_bit 8 (ucast a :: 16 word) OR ucast b) :: byte) = b"
    by (rule bit_word_eqI) (auto simp: bit_simps)
  with r show ?thesis
    by (simp add: version_def readUInt16_def ReadFull_def be16_def STREAM_VERSION_def)
qed

text \<open>
  C5. The claim: the version is read as a 16-bit value and every value other than 5 is
  rejected, \<open>01 05\<close> for one. The code: \<open>version\<close> compares the low byte only and accepts
  \<open>01 05\<close>; the method \<open>ParseSerializedObject\<close> then returns without an error. In the
  function \<open>ParseSerializedObject\<close>, \<open>parseStream\<close> prints a line for the version
  \<open>01 05\<close> and goes on: it reads the \<open>TC_NULL\<close> that follows, the second byte that it
  pops from the lookahead.
\<close>

theorem version_accepts_0105:
  "fst (version (NewSerializedObjectParser [0x01, 0x05] 2)) = None \<and>
   result (ParseSerializedObject_method 1 (NewSerializedObjectParser [0xAC, 0xED, 0x01, 0x05] 4))
     = Some ([], None) \<and>
   map_option nPos (final (ParseSerializedObject 5 [0xAC, 0xED, 0x01, 0x05, 0x70])) = Some 2 \<and>
   map_option rd (final (ParseSerializedObject 5 [0xAC, 0xED, 0x01, 0x05, 0x70])) = Some []"
  by code_simp

section \<open>Lengths\<close>

lemma byte_and_0xff: "(b :: byte) AND 0xff = b"
proof -
  have "(0xff :: byte) = - 1" by simp
  then show ?thesis by (simp only: and.right_neutral)
qed

lemma utfLength_low_byte: "utfLength b1 b2 = uint b2"
  by (simp add: utfLength_def byte_and_0xff)

lemma uint32Length_low_byte: "uint32Length [b1, b2, b3, b4] = ucast b4"
proof -
  have m: "(0xff :: 32 word) = mask 8"
    by (simp add: mask_eq_exp_minus_1)
  have "(ucast b4 :: 32 word) AND 0xff = ucast b4"
    unfolding m by (rule bit_word_eqI) (auto simp: bit_simps dest: bit_imp_le_length)
  then show ?thesis by (simp add: uint32Length_def)
qed

text \<open>
  C6. The claim: the two length bytes \<open>b1 b2\<close> of \<open>readUtf\<close> decode to \<open>256 * b1 + b2\<close>
  and the four length bytes of \<open>readLongBlockData\<close> to their big-endian value. The code
  shifts in \<open>uint8\<close>, which leaves 0, so that only the last byte counts: the length bytes
  \<open>01 00\<close> give 0, not 256, and \<open>readUtf\<close> reads an empty string after them; the length
  bytes \<open>00 00 01 00\<close> give 0 as well.
\<close>

theorem lengths_keep_low_byte:
  "utfLength b1 b2 = uint b2 \<and>
   uint32Length [b1, b2, b3, b4] = ucast b4 \<and>
   utfLength 0x01 0x00 = 0 \<and>
   uint32Length [0x00, 0x00, 0x01, 0x00] = 0 \<and>
   readUtf (NewSerializedObjectParser [0x01, 0x00, 0x41] 3)
     = ([], NewSerializedObjectParser [0x41] 3)"
proof (intro conjI)
  show "utfLength b1 b2 = uint b2" by (rule utfLength_low_byte)
  show "uint32Length [b1, b2, b3, b4] = ucast b4" by (rule uint32Length_low_byte)
  show "utfLength 0x01 0x00 = 0" by code_simp
  show "uint32Length [0x00, 0x00, 0x01, 0x00] = 0" by code_simp
  show "readUtf (NewSerializedObjectParser [0x01, 0x00, 0x41] 3)
          = ([], NewSerializedObjectParser [0x41] 3)"
    by code_simp
qed

section \<open>End of input\<close>

text \<open>
  C7. The claim: a read past the end of the input fails with an end-of-input error and
  no byte is made up. The code: \<open>pop\<close> and \<open>peek\<close> drop the error of \<open>readUInt8\<close> and
  hand out the byte 0. On \<open>AC ED 00 05 74 00 05 48\<close>, a string of declared length 5 with
  one byte of contents, the method \<open>ParseSerializedObject\<close> returns one element and no
  error; on \<open>AC ED 00 05 77 05 01\<close>, a block of declared length 5 with one byte, the
  function \<open>ParseSerializedObject\<close> returns without an error.
\<close>

theorem reads_past_the_end_make_up_zero:
  "Smooth_pop (NewSerializedObjectParser [] 0) = (0, NewSerializedObjectParser [] 0) \<and>
   fst (Smooth_peek (NewSerializedObjectParser [] 0)) = 0 \<and>
   result (ParseSerializedObject_method 2
             (NewSerializedObjectParser [0xAC, 0xED, 0x00, 0x05, 0x74, 0x00, 0x05, 0x48] 8))
     = Some ([VNil], None) \<and>
   result (ParseSerializedObject 3 [0xAC, 0xED, 0x00, 0x05, 0x77, 0x05, 0x01]) = Some ([], None)"
  by code_simp

section \<open>Class descriptor flags\<close>

lemmas flag_defs = SC_WRITE_METHOD_def SC_BLOCK_DATA_def SC_SERIALIZABLE_def
  SC_EXTERNALIZABLE_def SC_ENUM_def SC_Fail_def

text \<open>\<open>readClassDescInfo\<close> panics on exactly the flag bytes that the specification rules out.\<close>

lemma classDescFlagsPanic_iff: "classDescFlagsPanic b \<noteq> None \<longleftrightarrow> illegalClassDescFlags b"
  by (auto simp: classDescFlagsPanic_def illegalClassDescFlags_def hasFlag_def flag_defs)

lemma sel_flags:
  fixes b c :: byte
  assumes "b AND 0x0f = c"
  shows "b AND 1 = c AND 1" "b AND 2 = c AND 2" "b AND 4 = c AND 4" "b AND 8 = c AND 8"
proof -
  have "b AND 1 = (b AND 0x0f) AND 1" "b AND 2 = (b AND 0x0f) AND 2"
    "b AND 4 = (b AND 0x0f) AND 4" "b AND 8 = (b AND 0x0f) AND 8"
    by (simp_all add: and.assoc)
  with assms show "b AND 1 = c AND 1" "b AND 2 = c AND 2" "b AND 4 = c AND 4" "b AND 8 = c AND 8"
    by simp_all
qed

lemma illegal_flags_selector:
  assumes "illegalClassDescFlags b"
  shows "b AND 0x0f \<noteq> 0x02 \<and> b AND 0x0f \<noteq> 0x03 \<and> b AND 0x0f \<noteq> 0x04 \<and> b AND 0x0f \<noteq> 0x0c"
proof (intro conjI notI)
  assume "b AND 0x0f = 0x02"
  from sel_flags [OF this] assms show False
    by (simp add: illegalClassDescFlags_def hasFlag_def flag_defs)
next
  assume "b AND 0x0f = 0x03"
  from sel_flags [OF this] assms show False
    by (simp add: illegalClassDescFlags_def hasFlag_def flag_defs)
next
  assume "b AND 0x0f = 0x04"
  from sel_flags [OF this] assms show False
    by (simp add: illegalClassDescFlags_def hasFlag_def flag_defs)
next
  assume "b AND 0x0f = 0x0c"
  from sel_flags [OF this] assms show False
    by (simp add: illegalClassDescFlags_def hasFlag_def flag_defs)
qed

lemma readClassDescInfo_illegal:
  assumes "illegalClassDescFlags (fst (Smooth_pop st))"
  shows "\<exists>p. readClassDescInfo w cdd st = Panicked p"
proof -
  obtain b st1 where pop: "Smooth_pop st = (b, st1)" by (cases "Smooth_pop st")
  with assms have "illegalClassDescFlags b" by simp
  then have "classDescFlagsPanic b \<noteq> None"
    by (simp only: classDescFlagsPanic_iff)
  then obtain msg where msg: "classDescFlagsPanic b = Some msg" by auto
  show ?thesis
  proof (cases "setLastClassDescFlags cdd b")
    case None
    with pop show ?thesis
      by (simp add: readClassDescInfo_def orIndexPanic_def seq_def)
  next
    case (Some cdd1)
    with pop msg show ?thesis
      by (simp add: readClassDescInfo_def orIndexPanic_def seq_def Panicln_def)
  qed
qed

lemma classData_illegal:
  assumes "illegalClassDescFlags (flags c)"
  shows "classData vals anns (Some c) st =
           Some (None, Some (Errorf ''unable to deserialize class with flags %#x''
                               [uint (flags c)]), st)"
  using illegal_flags_selector [OF assms] by (simp add: classData_def Let_def)

text \<open>
  C8. For every flag byte that has \<open>SC_SERIALIZABLE\<close> with \<open>SC_EXTERNALIZABLE\<close>,
  \<open>SC_SERIALIZABLE\<close> with \<open>SC_BLOCK_DATA\<close>, \<open>SC_EXTERNALIZABLE\<close> with \<open>SC_WRITE_METHOD\<close>, or
  neither \<open>SC_SERIALIZABLE\<close> nor \<open>SC_EXTERNALIZABLE\<close> while it is not zero, parsing is
  fatal: \<open>readClassDescInfo\<close>, reading that byte as the flags of a class descriptor,
  panics whatever follows in the stream, and \<open>classData\<close> returns an error and no data
  for a class with these flags.
\<close>

theorem illegal_classDescFlags_fatal:
  assumes "illegalClassDescFlags b"
    and "fst (Smooth_pop st) = b"
    and "flags c = b"
  shows "(\<exists>p. readClassDescInfo w cdd st = Panicked p) \<and>
         classData vals anns (Some c) st' =
           Some (None, Some (Errorf ''unable to deserialize class with flags %#x'' [uint b]), st')"
  using assms readClassDescInfo_illegal [of st w cdd] classData_illegal [of c vals anns st']
  by simp

theorem illegal_classDescFlags_fatal_witness:
  "illegalClassDescFlags 0x06 \<and>
   fst (Smooth_pop (NewSerializedObjectParser [0x06, 0x00, 0x00, 0x78, 0x70] 5)) = 0x06 \<and>
   flags (Clazz None [] [] [0x41, 0x42] 0x06 False) = 0x06 \<and>
   (\<exists>p. readClassDescInfo (walker 3) (addClass NewClassDataDesc [0x41, 0x42])
          (NewSerializedObjectParser [0x06, 0x00, 0x00, 0x78, 0x70] 5) = Panicked p) \<and>
   classData (\<lambda>c st. None) (\<lambda>c blk st. None) (Some (Clazz None [] [] [0x41, 0x42] 0x06 False))
      (NewSerializedObjectParser [] 0) =
     Some (None, Some (Errorf ''unable to deserialize class with flags %#x'' [uint (0x06 :: byte)]),
           NewSerializedObjectParser [] 0)"
proof -
  have i: "illegalClassDescFlags 0x06"
    by (simp add: illegalClassDescFlags_def hasFlag_def flag_defs)
  have p: "fst (Smooth_pop (NewSerializedObjectParser [0x06, 0x00, 0x00, 0x78, 0x70] 5)) = 0x06"
    by (simp add: Smooth_pop_def readUInt8_def ReadFull_def NewSerializedObjectParser_def)
  have f: "flags (Clazz None [] [] [0x41, 0x42] 0x06 False) = 0x06"
    by simp
  from illegal_classDescFlags_fatal [OF i p f] i p f show ?thesis
    by blast
qed

section \<open>Runs do not depend on maxDataBlockSize\<close>

text \<open>
  No function of the walker reads \<open>maxDataBlockSize\<close> but \<open>parseStream\<close>, in the condition
  of its loop: a run from a state with another value of the field is the same run, and
  leaves the field as it was.
\<close>

lemma mapS_simps [simp]:
  "mapS u (Returned x st) = Returned x (u st)"
  "mapS u (Panicked p) = Panicked p"
  "mapS u OutOfFuel = OutOfFuel"
  "mapS u (Panicln msg) = Panicln msg"
  by (simp_all add: mapS_def Panicln_def)

lemma mapS_seq: "mapS u (seq a k) = seq a (\<lambda>x s. mapS u (k x s))"
  by (cases a) (simp_all add: seq_def)

lemma seq_mapS: "seq (mapS u a) k = seq a (\<lambda>x s. k x (u s))"
  by (cases a) (simp_all add: seq_def)

lemma case_prod_apsnd: "(case apsnd f p of (a, b) \<Rightarrow> g a b) = (case p of (a, b) \<Rightarrow> g a (f b))"
  by (cases p) simp

lemmas mapS_distribs = if_distrib [of "mapS u" for u] prod.case_distrib [of "mapS u" for u]
  option.case_distrib [of "mapS u" for u] sum.case_distrib [of "mapS u" for u]
  list.case_distrib [of "mapS u" for u]

lemma seq_simps:
  "seq (Returned x st) k = k x st"
  "seq (Panicked p) k = Panicked p"
  "seq OutOfFuel k = OutOfFuel"
  "seq (Panicln msg) k = Panicln msg"
  by (simp_all add: seq_def Panicln_def)

lemma seq_assoc: "seq (seq a f) k = seq a (\<lambda>x s. seq (f x s) k)"
  by (cases a) (simp_all add: seq_def)

lemma seq_if: "seq (if c then a else b) k = (if c then seq a k else seq b k)"
  by simp

lemma seq_case_prod: "seq (case p of (a, b) \<Rightarrow> g a b) k = (case p of (a, b) \<Rightarrow> seq (g a b) k)"
  by (cases p) simp

lemmas frame_simps = mapS_seq seq_mapS case_prod_apsnd mapS_distribs seq_simps seq_assoc seq_if
  seq_case_prod

lemma withMax_fields [simp]:
  "rd (withMax m st) = rd st" "data (withMax m st) = data st" "nPos (withMax m st) = nPos st"
  "indent (withMax m st) = indent st" "handleValue (withMax m st) = handleValue st"
  "classDataDescriptions (withMax m st) = classDataDescriptions st"
  "maxDataBlockSize (withMax m st) = m"
  by (simp_all add: withMax_def)

lemma Smooth_pop_frame: "Smooth_pop (withMax m st) = apsnd (withMax m) (Smooth_pop st)"
  by (simp add: Smooth_pop_def readUInt8_def ReadFull_def withMax_def)

lemma Smooth_peek_frame: "Smooth_peek (withMax m st) = apsnd (withMax m) (Smooth_peek st)"
  by (simp add: Smooth_peek_def Smooth_add_def readUInt8_def ReadFull_def withMax_def)

lemma pops_frame: "pops n (withMax m st) = apsnd (withMax m) (pops n st)"
  by (induction n arbitrary: st) (simp_all add: Smooth_pop_frame case_prod_apsnd split: prod.splits)

lemma newHandle1_frame: "newHandle1 (withMax m st) = apsnd (withMax m) (newHandle1 st)"
  by (simp add: newHandle1_def withMax_def)

lemma increaseIndent_frame: "increaseIndent (withMax m st) = withMax m (increaseIndent st)"
  by (simp add: increaseIndent_def withMax_def)

lemma decreaseIndent_frame: "decreaseIndent (withMax m st) = mapS (withMax m) (decreaseIndent st)"
  by (simp add: decreaseIndent_def withMax_def)

lemma orIndexPanic_frame: "orIndexPanic x (withMax m st) = mapS (withMax m) (orIndexPanic x st)"
  by (simp add: orIndexPanic_def split: option.splits)

lemma readUtf_contents_frame:
  "readUtf_contents k c (withMax m st) = apsnd (withMax m) (readUtf_contents k c st)"
  by (induction k arbitrary: c st) (simp_all add: Smooth_pop_frame case_prod_apsnd split: prod.splits)

lemma readUtf_frame: "readUtf (withMax m st) = apsnd (withMax m) (readUtf st)"
  by (simp add: readUtf_def Smooth_pop_frame readUtf_contents_frame case_prod_apsnd split: prod.splits)

lemma readLongUtf_frame: "readLongUtf (withMax m st) = apsnd (withMax m) (readLongUtf st)"
  by (simp add: readLongUtf_def pops_frame readUtf_contents_frame case_prod_apsnd split: prod.splits)

lemmas basic_frames = Smooth_pop_frame Smooth_peek_frame pops_frame newHandle1_frame
  increaseIndent_frame decreaseIndent_frame orIndexPanic_frame readUtf_frame readLongUtf_frame

lemma readTC_STRING_frame: "readTC_STRING (withMax m st) = mapS (withMax m) (readTC_STRING st)"
  by (simp add: readTC_STRING_def basic_frames frame_simps cong: if_cong prod.case_cong)

lemma readTC_LONGSTRING_frame:
  "readTC_LONGSTRING (withMax m st) = mapS (withMax m) (readTC_LONGSTRING st)"
  by (simp add: readTC_LONGSTRING_def basic_frames frame_simps cong: if_cong prod.case_cong)

lemma readPrevObject_frame: "readPrevObject (withMax m st) = mapS (withMax m) (readPrevObject st)"
  by (simp add: readPrevObject_def basic_frames frame_simps cong: if_cong prod.case_cong)

lemma readNullReference_frame:
  "readNullReference (withMax m st) = mapS (withMax m) (readNullReference st)"
  by (simp add: readNullReference_def basic_frames frame_simps cong: if_cong prod.case_cong)

lemma readNewString_frame: "readNewString (withMax m st) = mapS (withMax m) (readNewString st)"
  by (simp add: readNewString_def basic_frames frame_simps readTC_STRING_frame
      readTC_LONGSTRING_frame readPrevObject_frame cong: if_cong prod.case_cong)

lemmas frame_congs = if_cong prod.case_cong option.case_cong sum.case_cong list.case_cong

lemma readBlockData_frame: "readBlockData (withMax m st) = mapS (withMax m) (readBlockData st)"
  by (simp add: readBlockData_def basic_frames frame_simps cong: frame_congs)

lemma readLongBlockData_frame:
  "readLongBlockData (withMax m st) = mapS (withMax m) (readLongBlockData st)"
  by (simp add: readLongBlockData_def basic_frames frame_simps cong: frame_congs)

lemma readFieldDesc_frame:
  "readFieldDesc cdd (withMax m st) = mapS (withMax m) (readFieldDesc cdd st)"
  by (simp add: readFieldDesc_def basic_frames frame_simps readNewString_frame cong: frame_congs)

lemma readFields_loop_frame:
  "readFields_loop k cdd (withMax m st) = mapS (withMax m) (readFields_loop k cdd st)"
  by (induction k arbitrary: cdd st)
     (simp_all add: basic_frames frame_simps readFieldDesc_frame cong: frame_congs)

lemma readFields_frame: "readFields cdd (withMax m st) = mapS (withMax m) (readFields cdd st)"
  by (simp add: readFields_def basic_frames frame_simps readFields_loop_frame Let_def
      cong: frame_congs)

lemma primitive_frames:
  "readByteField (withMax m st) = withMax m (readByteField st)"
  "readCharField (withMax m st) = withMax m (readCharField st)"
  "readFloatField (withMax m st) = withMax m (readFloatField st)"
  "readIntField (withMax m st) = withMax m (readIntField st)"
  "readLongField (withMax m st) = withMax m (readLongField st)"
  "readShortField (withMax m st) = withMax m (readShortField st)"
  "readBooleanField (withMax m st) = withMax m (readBooleanField st)"
  "readDoubleField (withMax m st) = withMax m (readDoubleField st)"
  by (simp_all only: readByteField_def readCharField_def readFloatField_def readIntField_def
      readLongField_def readShortField_def readBooleanField_def readDoubleField_def pops_frame
      snd_apsnd)

lemma readProxyInterfaceNames_frame:
  "readProxyInterfaceNames k (withMax m st) = mapS (withMax m) (readProxyInterfaceNames k st)"
  by (induction k arbitrary: st) (simp_all add: basic_frames frame_simps cong: frame_congs)

lemmas leaf_frames = basic_frames readTC_STRING_frame readTC_LONGSTRING_frame readPrevObject_frame
  readNullReference_frame readNewString_frame readBlockData_frame readLongBlockData_frame
  readFieldDesc_frame readFields_frame primitive_frames readProxyInterfaceNames_frame

lemma framedD:
  assumes "framed w"
  shows "readContentElement w (withMax m st) = mapS (withMax m) (readContentElement w st)"
    and "readClassDesc w (withMax m st) = mapS (withMax m) (readClassDesc w st)"
    and "readFieldValue w tc (withMax m st) = mapS (withMax m) (readFieldValue w tc st)"
  using assms by (simp_all add: framed_def)

lemma untilEndBlockData_frame:
  assumes "framed w"
  shows "untilEndBlockData k w x (withMax m st) = mapS (withMax m) (untilEndBlockData k w x st)"
  by (induction k arbitrary: x st)
     (simp_all add: leaf_frames frame_simps framedD [OF assms] cong: frame_congs)

lemma readClassAnnotation_frame:
  assumes "framed w"
  shows "readClassAnnotation w (withMax m st) = mapS (withMax m) (readClassAnnotation w st)"
  by (simp add: readClassAnnotation_def leaf_frames frame_simps untilEndBlockData_frame [OF assms]
      cong: frame_congs)

lemma readSuperClassDesc_frame:
  assumes "framed w"
  shows "readSuperClassDesc w (withMax m st) = mapS (withMax m) (readSuperClassDesc w st)"
  by (simp add: readSuperClassDesc_def leaf_frames frame_simps framedD [OF assms]
      cong: frame_congs)

lemma readClassDescInfo_frame:
  assumes "framed w"
  shows "readClassDescInfo w cdd (withMax m st) = mapS (withMax m) (readClassDescInfo w cdd st)"
  by (simp add: readClassDescInfo_def leaf_frames frame_simps readClassAnnotation_frame [OF assms]
      readSuperClassDesc_frame [OF assms] cong: frame_congs)

lemma readTC_CLASSDESC_frame:
  assumes "framed w"
  shows "readTC_CLASSDESC w (withMax m st) = mapS (withMax m) (readTC_CLASSDESC w st)"
  by (simp add: readTC_CLASSDESC_def leaf_frames frame_simps readClassDescInfo_frame [OF assms]
      cong: frame_congs)

lemma readProxyClassDescInfo_frame:
  assumes "framed w"
  shows "readProxyClassDescInfo w cdd (withMax m st)
           = mapS (withMax m) (readProxyClassDescInfo w cdd st)"
  by (simp add: readProxyClassDescInfo_def leaf_frames frame_simps
      readClassAnnotation_frame [OF assms] readSuperClassDesc_frame [OF assms] cong: frame_congs)

lemma readTC_PROXYCLASSDESC_frame:
  assumes "framed w"
  shows "readTC_PROXYCLASSDESC w (withMax m st) = mapS (withMax m) (readTC_PROXYCLASSDESC w st)"
  by (simp add: readTC_PROXYCLASSDESC_def leaf_frames frame_simps
      readProxyClassDescInfo_frame [OF assms] cong: frame_congs)

lemma withMax_classDataDescriptions:
  "(withMax m st)\<lparr>classDataDescriptions := x\<rparr> = withMax m (st\<lparr>classDataDescriptions := x\<rparr>)"
  by (simp add: withMax_def)

lemma readNewClassDesc_frame:
  assumes "framed w"
  shows "readNewClassDesc w (withMax m st) = mapS (withMax m) (readNewClassDesc w st)"
  by (simp add: readNewClassDesc_def leaf_frames frame_simps readTC_CLASSDESC_frame [OF assms]
      readTC_PROXYCLASSDESC_frame [OF assms] withMax_classDataDescriptions cong: frame_congs)

lemma readClassDesc_body_frame:
  assumes "framed w"
  shows "readClassDesc_body w (withMax m st) = mapS (withMax m) (readClassDesc_body w st)"
  by (simp add: readClassDesc_body_def leaf_frames frame_simps readNewClassDesc_frame [OF assms]
      cong: frame_congs)

lemma readClassDataField_frame:
  assumes "framed w"
  shows "readClassDataField w cf (withMax m st) = mapS (withMax m) (readClassDataField w cf st)"
  by (simp add: readClassDataField_def leaf_frames frame_simps framedD [OF assms]
      cong: frame_congs)

lemma readClassData_values_frame:
  assumes "framed w"
  shows "readClassData_values w cfs (withMax m st)
           = mapS (withMax m) (readClassData_values w cfs st)"
  by (induction cfs arbitrary: st)
     (simp_all add: frame_simps readClassDataField_frame [OF assms] cong: frame_congs)

lemma readClassData_classes_frame:
  assumes "framed w"
  shows "readClassData_classes w c k (withMax m st)
           = mapS (withMax m) (readClassData_classes w c k st)"
  by (induction k arbitrary: st)
     (simp_all add: leaf_frames frame_simps readClassData_values_frame [OF assms]
        untilEndBlockData_frame [OF assms] cong: frame_congs)

lemma readClassData_frame:
  assumes "framed w"
  shows "readClassData w cdd (withMax m st) = mapS (withMax m) (readClassData w cdd st)"
  by (simp add: readClassData_def leaf_frames frame_simps readClassData_classes_frame [OF assms]
      cong: frame_congs)

lemma readNewObject_frame:
  assumes "framed w"
  shows "readNewObject w (withMax m st) = mapS (withMax m) (readNewObject w st)"
  by (simp add: readNewObject_def leaf_frames frame_simps readClassData_frame [OF assms]
      framedD [OF assms] cong: frame_congs)

lemma readNewClass_frame:
  assumes "framed w"
  shows "readNewClass w (withMax m st) = mapS (withMax m) (readNewClass w st)"
  by (simp add: readNewClass_def leaf_frames frame_simps framedD [OF assms] cong: frame_congs)

lemma readNewArray_values_frame:
  assumes "framed w"
  shows "readNewArray_values w k tc (withMax m st)
           = mapS (withMax m) (readNewArray_values w k tc st)"
  by (induction k arbitrary: st)
     (simp_all add: leaf_frames frame_simps framedD [OF assms] cong: frame_congs)

lemma readNewArray_frame:
  assumes "framed w"
  shows "readNewArray w (withMax m st) = mapS (withMax m) (readNewArray w st)"
  by (simp add: readNewArray_def leaf_frames frame_simps readNewArray_values_frame [OF assms]
      framedD [OF assms] cong: frame_congs)

lemma readNewEnum_frame:
  assumes "framed w"
  shows "readNewEnum w (withMax m st) = mapS (withMax m) (readNewEnum w st)"
  by (simp add: readNewEnum_def leaf_frames frame_simps framedD [OF assms] cong: frame_congs)

lemma discard_frame: "discard x (withMax m st) = mapS (withMax m) (discard x st)"
  by (simp add: discard_def)

lemma noError_frame: "noError x (withMax m st) = mapS (withMax m) (noError x st)"
  by (simp add: noError_def)

lemma readArrayField_frame:
  assumes "framed w"
  shows "readArrayField w (withMax m st) = mapS (withMax m) (readArrayField w st)"
  by (simp add: readArrayField_def leaf_frames frame_simps readNewArray_frame [OF assms]
      discard_frame cong: frame_congs)

lemma readObjectField_frame:
  assumes "framed w"
  shows "readObjectField w (withMax m st) = mapS (withMax m) (readObjectField w st)"
  by (simp add: readObjectField_def leaf_frames frame_simps readNewArray_frame [OF assms]
      readNewObject_frame [OF assms] readNewClass_frame [OF assms] readNewEnum_frame [OF assms]
      discard_frame cong: frame_congs)

lemma readFieldValue_body_frame:
  assumes "framed w"
  shows "readFieldValue_body w tc (withMax m st) = mapS (withMax m) (readFieldValue_body w tc st)"
  by (simp add: readFieldValue_body_def leaf_frames readArrayField_frame [OF assms]
      readObjectField_frame [OF assms])

lemma readContentElement_body_frame:
  assumes "framed w"
  shows "readContentElement_body w (withMax m st)
           = mapS (withMax m) (readContentElement_body w st)"
  by (simp add: readContentElement_body_def leaf_frames frame_simps readNewArray_frame [OF assms]
      readNewObject_frame [OF assms] readNewClass_frame [OF assms] readNewEnum_frame [OF assms]
      readNewClassDesc_frame [OF assms] noError_frame readException_def handleReset_def
      cong: frame_congs)

lemma framed_walker: "framed (walker n)"
proof (induction n)
  case 0
  show ?case by (simp add: framed_def noCalls_def)
next
  case (Suc n)
  then show ?case
    by (simp add: framed_def deeper_def readContentElement_body_frame readClassDesc_body_frame
        readFieldValue_body_frame)
qed

section \<open>The bound on nPos\<close>

text \<open>
  \<open>nPos\<close> counts the bytes popped from the lookahead. Each of them was taken from the
  reader by \<open>peek\<close>, or made up by \<open>peek\<close> at the end of the input; a made-up byte is 0,
  which no function pops after it has peeked it. So the budget of the state after the
  prelude bounds \<open>nPos\<close> in every later iteration of the loop of \<open>parseStream\<close>.
\<close>

lemma fits_loose: "fits K st \<Longrightarrow> loose K st"
  by (simp add: fits_def loose_def)

lemma within_simps [simp]:
  "within K (Returned x st) = fits K st"
  "within K (Panicked p) = True"
  "within K OutOfFuel = True"
  "within K (Panicln msg) = True"
  by (simp_all add: within_def Panicln_def)

lemma within_seq:
  assumes "within K a" and "\<And>x s. fits K s \<Longrightarrow> within K (k x s)"
  shows "within K (seq a k)"
  using assms by (cases a) (simp_all add: seq_def)

lemma fits_pop: "loose K st \<Longrightarrow> fits K (snd (Smooth_pop st))"
  by (cases "data st")
     (auto simp: Smooth_pop_def readUInt8_def ReadFull_def fits_def loose_def budget_def)

lemma fits_pops: "fits K st \<Longrightarrow> fits K (snd (pops n st))"
proof (induction n arbitrary: st)
  case 0
  then show ?case by simp
next
  case (Suc n)
  from Suc.prems have "fits K (snd (Smooth_pop st))" by (intro fits_pop fits_loose)
  from Suc.IH [OF this] show ?case by (simp add: case_prod_beta)
qed

lemma fits_pops1: "loose K st \<Longrightarrow> 0 < n \<Longrightarrow> fits K (snd (pops n st))"
proof (cases n)
  case 0
  then show "0 < n \<Longrightarrow> ?thesis" by simp
next
  case (Suc j)
  assume "loose K st"
  then have "fits K (snd (pops j (snd (Smooth_pop st))))" by (intro fits_pops fits_pop)
  with Suc show ?thesis by (simp add: case_prod_beta)
qed

lemma fits_readUtf_contents: "fits K st \<Longrightarrow> fits K (snd (readUtf_contents k c st))"
proof (induction k arbitrary: c st)
  case 0
  then show ?case by simp
next
  case (Suc k)
  from Suc.prems have "fits K (snd (Smooth_pop st))" by (intro fits_pop fits_loose)
  from Suc.IH [OF this] show ?case by (simp add: case_prod_beta)
qed

lemma fits_readUtf: "loose K st \<Longrightarrow> fits K (snd (readUtf st))"
proof -
  assume "loose K st"
  then have "fits K (snd (Smooth_pop st))" by (rule fits_pop)
  then have "loose K (snd (Smooth_pop st))" by (rule fits_loose)
  then have "fits K (snd (Smooth_pop (snd (Smooth_pop st))))" by (rule fits_pop)
  then show ?thesis
    by (simp add: readUtf_def fits_readUtf_contents case_prod_beta)
qed

lemma fits_readLongUtf: "loose K st \<Longrightarrow> fits K (snd (readLongUtf st))"
proof -
  assume "loose K st"
  then have "fits K (snd (pops 8 st))" by (intro fits_pops1) simp_all
  then show ?thesis
    by (simp add: readLongUtf_def fits_readUtf_contents case_prod_beta)
qed

lemma fits_steps [simp]:
  "fits K (increaseIndent st) = fits K st"
  "fits K (snd (newHandle1 st)) = fits K st"
  "fits K (st\<lparr>classDataDescriptions := x\<rparr>) = fits K st"
  "loose K (increaseIndent st) = loose K st"
  "loose K (snd (newHandle1 st)) = loose K st"
  by (simp_all add: fits_def loose_def budget_def increaseIndent_def newHandle1_def)

lemma within_decreaseIndent: "fits K st \<Longrightarrow> within K (decreaseIndent st)"
  by (simp add: decreaseIndent_def fits_def budget_def)

lemma within_orIndexPanic: "fits K st \<Longrightarrow> within K (orIndexPanic x st)"
  by (simp add: orIndexPanic_def split: option.splits)

lemma loose_peek:
  "loose K st \<Longrightarrow> fst (Smooth_peek st) \<noteq> 0 \<Longrightarrow> loose K (snd (Smooth_peek st))"
  by (cases "data st"; cases "rd st")
     (auto simp: Smooth_peek_def Smooth_add_def readUInt8_def ReadFull_def loose_def budget_def)

lemma data_peek:
  "length (data st) \<le> 1 \<Longrightarrow> data (snd (Smooth_peek st)) = [fst (Smooth_peek st)]"
  by (cases "data st"; cases "rd st")
     (auto simp: Smooth_peek_def Smooth_add_def readUInt8_def ReadFull_def)

lemmas inv_simps = fits_pop fits_pops fits_pops1 fits_readUtf fits_readLongUtf
  within_decreaseIndent within_orIndexPanic fits_loose loose_peek

lemma within_readTC_STRING: "loose K st \<Longrightarrow> within K (readTC_STRING st)"
  by (auto simp: readTC_STRING_def case_prod_beta inv_simps intro!: within_seq)

lemma within_readTC_LONGSTRING: "loose K st \<Longrightarrow> within K (readTC_LONGSTRING st)"
  by (auto simp: readTC_LONGSTRING_def case_prod_beta inv_simps intro!: within_seq)

lemma within_readPrevObject: "loose K st \<Longrightarrow> within K (readPrevObject st)"
  by (auto simp: readPrevObject_def case_prod_beta inv_simps intro!: within_seq)

lemma within_readNullReference: "loose K st \<Longrightarrow> within K (readNullReference st)"
  by (auto simp: readNullReference_def case_prod_beta inv_simps intro!: within_seq)

lemma within_readNewString: "loose K st \<Longrightarrow> within K (readNewString st)"
  by (auto simp: readNewString_def case_prod_beta inv_simps tag_defs within_readTC_STRING
      within_readTC_LONGSTRING within_readPrevObject intro!: within_seq)

lemma within_readBlockData: "loose K st \<Longrightarrow> within K (readBlockData st)"
  by (auto simp: readBlockData_def case_prod_beta inv_simps intro!: within_seq)

lemma within_readLongBlockData: "loose K st \<Longrightarrow> within K (readLongBlockData st)"
  by (auto simp: readLongBlockData_def case_prod_beta inv_simps intro!: within_seq)

lemma within_readFieldDesc: "loose K st \<Longrightarrow> within K (readFieldDesc cdd st)"
  by (auto simp: readFieldDesc_def case_prod_beta inv_simps within_readNewString
      intro!: within_seq)

lemma within_readFields_loop: "fits K st \<Longrightarrow> within K (readFields_loop k cdd st)"
  by (induction k arbitrary: cdd st)
     (auto simp: inv_simps within_readFieldDesc intro!: within_seq)

lemma within_readFields: "loose K st \<Longrightarrow> within K (readFields cdd st)"
proof -
  assume "loose K st"
  then have "fits K (snd (Smooth_pop st))" by (rule fits_pop)
  then have "loose K (snd (Smooth_pop st))" by (rule fits_loose)
  then have "fits K (snd (Smooth_pop (snd (Smooth_pop st))))" by (rule fits_pop)
  then show ?thesis
    by (auto simp: readFields_def case_prod_beta Let_def inv_simps within_readFields_loop
        intro!: within_seq)
qed

lemma fits_primitives:
  assumes "loose K st"
  shows "fits K (readByteField st)" "fits K (readCharField st)" "fits K (readFloatField st)"
    "fits K (readIntField st)" "fits K (readLongField st)" "fits K (readShortField st)"
    "fits K (readBooleanField st)" "fits K (readDoubleField st)"
  unfolding readByteField_def readCharField_def readFloatField_def readIntField_def
    readLongField_def readShortField_def readBooleanField_def readDoubleField_def
  by (rule fits_pops1 [OF assms]; simp)+

lemma within_readProxyInterfaceNames:
  "fits K st \<Longrightarrow> within K (readProxyInterfaceNames k st)"
  by (induction k arbitrary: st)
     (auto simp: case_prod_beta inv_simps intro!: within_seq)

lemmas leaf_invs = inv_simps within_readTC_STRING within_readTC_LONGSTRING within_readPrevObject
  within_readNullReference within_readNewString within_readBlockData within_readLongBlockData
  within_readFieldDesc within_readFields fits_primitives within_readProxyInterfaceNames

lemma keptD:
  assumes "kept w"
  shows "loose K st \<Longrightarrow> within K (readClassDesc w st)"
    and "loose K st \<Longrightarrow> within K (readFieldValue w tc st)"
    and "loose K st \<Longrightarrow> withinC K (readContentElement w st)"
  using assms by (simp_all add: kept_def)

lemma kept_stuck:
  assumes "kept w" "data st \<noteq> []" "readContentElement w st = Returned (Some e) st'"
  shows "st' = st"
  using assms unfolding kept_def by blast

lemma kept_zero:
  assumes "kept w" "data st \<noteq> []" "hd (data st) = 0"
  shows "readContentElement w st = OutOfFuel \<or> (\<exists>e. readContentElement w st = Returned (Some e) st)"
  using assms unfolding kept_def by blast

lemma Smooth_peek_nonempty: "data st \<noteq> [] \<Longrightarrow> Smooth_peek st = (hd (data st), st)"
  by (cases "data st") (simp_all add: Smooth_peek_def)

lemma until_stuck:
  assumes "data st \<noteq> []" "hd (data st) \<noteq> TC_ENDBLOCKDATA"
    "readContentElement w st = Returned (Some e) st"
  shows "untilEndBlockData k w (hd (data st)) st = OutOfFuel"
  using assms by (induction k) (simp_all add: seq_def Smooth_peek_nonempty)

lemma until_zero:
  assumes "kept w" "data st \<noteq> []" "hd (data st) = 0"
  shows "untilEndBlockData k w 0 st = OutOfFuel"
proof (cases k)
  case 0
  then show ?thesis by (simp add: tag_defs)
next
  case (Suc j)
  from kept_zero [OF assms] show ?thesis
  proof
    assume "readContentElement w st = OutOfFuel"
    with Suc show ?thesis by (simp add: seq_def tag_defs)
  next
    assume "\<exists>e. readContentElement w st = Returned (Some e) st"
    then obtain e where e: "readContentElement w st = Returned (Some e) st" ..
    have "untilEndBlockData (Suc j) w (hd (data st)) st = OutOfFuel"
      using assms(2) _ e by (rule until_stuck) (simp add: assms(3) tag_defs)
    with Suc assms(3) show ?thesis by simp
  qed
qed

lemma withinL_until:
  assumes "kept w"
  shows "loose K st \<Longrightarrow> data st = [x] \<Longrightarrow> withinL K (untilEndBlockData k w x st)"
proof (induction k arbitrary: x st)
  case 0
  then show ?case by (simp add: withinL_def)
next
  case (Suc k)
  show ?case
  proof (cases "x = TC_ENDBLOCKDATA")
    case True
    with Suc.prems show ?thesis by (simp add: withinL_def)
  next
    case False
    show ?thesis
    proof (cases "readContentElement w st")
      case OutOfFuel
      with False show ?thesis by (simp add: withinL_def seq_def)
    next
      case (Panicked p)
      with False show ?thesis by (simp add: withinL_def seq_def)
    next
      case (Returned e st1)
      show ?thesis
      proof (cases e)
        case (Some err)
        with Returned Suc.prems have st1: "st1 = st"
          using kept_stuck [OF assms, of st err st1] by simp
        have "untilEndBlockData k w (hd (data st)) st = OutOfFuel"
          using Suc.prems(2) False Returned Some st1 by (intro until_stuck) simp_all
        with Returned Some st1 False Suc.prems(2) show ?thesis
          by (simp add: withinL_def seq_def Smooth_peek_nonempty)
      next
        case None
        with Returned Suc.prems(1) have l1: "loose K st1"
          using keptD(3) [OF assms, of K st] by (simp add: withinC_def)
        then have len: "length (data st1) \<le> 1" by (simp add: loose_def)
        obtain x1 st2 where pk: "Smooth_peek st1 = (x1, st2)" by (cases "Smooth_peek st1")
        with data_peek [OF len] have d2: "data st2 = [x1]" by simp
        have "withinL K (untilEndBlockData k w x1 st2)"
        proof (cases "x1 = 0")
          case True
          with d2 have "untilEndBlockData k w 0 st2 = OutOfFuel"
            by (intro until_zero [OF assms]) simp_all
          with True show ?thesis by (simp add: withinL_def)
        next
          case False
          with loose_peek [OF l1] pk have "loose K st2" by simp
          then show ?thesis using d2 by (rule Suc.IH)
        qed
        with Returned None False pk show ?thesis by (simp add: seq_def)
      qed
    qed
  qed
qed

lemma within_annotation_block:
  assumes "kept w" "loose K s"
  shows "within K (case Smooth_peek s of (x, st1) \<Rightarrow>
           seq (untilEndBlockData k w x st1) (\<lambda>_ st2. decreaseIndent (snd (Smooth_pop st2))))"
proof -
  obtain x st1 where pk: "Smooth_peek s = (x, st1)" by (cases "Smooth_peek s")
  from assms(2) have "length (data s) \<le> 1" by (simp add: loose_def)
  from data_peek [OF this] pk have d1: "data st1 = [x]" by simp
  show ?thesis
  proof (cases "x = 0")
    case True
    with d1 have "untilEndBlockData k w 0 st1 = OutOfFuel"
      by (intro until_zero [OF assms(1)]) simp_all
    with True pk show ?thesis by (simp add: seq_def)
  next
    case False
    with loose_peek [OF assms(2)] pk have "loose K st1" by simp
    from withinL_until [OF assms(1) this d1, of k] pk show ?thesis
      by (cases "untilEndBlockData k w x st1")
         (simp_all add: withinL_def seq_def fits_pop within_decreaseIndent)
  qed
qed

lemma within_readClassAnnotation:
  assumes "kept w" "loose K st"
  shows "within K (readClassAnnotation w st)"
  unfolding readClassAnnotation_def
  by (rule within_annotation_block [OF assms(1)]) (simp add: assms(2))

lemma within_readSuperClassDesc:
  assumes "kept w" "loose K st"
  shows "within K (readSuperClassDesc w st)"
  using assms(2)
  by (auto simp: readSuperClassDesc_def leaf_invs keptD [OF assms(1)] intro!: within_seq)

lemma within_readClassDescInfo:
  assumes "kept w" "loose K st"
  shows "within K (readClassDescInfo w cdd st)"
  using assms(2)
  by (auto simp: readClassDescInfo_def case_prod_beta leaf_invs
      within_readClassAnnotation [OF assms(1)] within_readSuperClassDesc [OF assms(1)]
      intro!: within_seq split: option.splits)

lemma within_readTC_CLASSDESC:
  assumes "kept w" "loose K st"
  shows "within K (readTC_CLASSDESC w st)"
  using assms(2)
  by (auto simp: readTC_CLASSDESC_def case_prod_beta leaf_invs
      within_readClassDescInfo [OF assms(1)] intro!: within_seq)

lemma within_readProxyClassDescInfo:
  assumes "kept w" "loose K st"
  shows "within K (readProxyClassDescInfo w cdd st)"
  using assms(2)
  by (auto simp: readProxyClassDescInfo_def case_prod_beta leaf_invs
      within_readClassAnnotation [OF assms(1)] within_readSuperClassDesc [OF assms(1)]
      intro!: within_seq)

lemma within_readTC_PROXYCLASSDESC:
  assumes "kept w" "loose K st"
  shows "within K (readTC_PROXYCLASSDESC w st)"
  using assms(2)
  by (auto simp: readTC_PROXYCLASSDESC_def case_prod_beta leaf_invs
      within_readProxyClassDescInfo [OF assms(1)] intro!: within_seq)

lemma within_readNewClassDesc:
  assumes "kept w" "loose K st"
  shows "within K (readNewClassDesc w st)"
  using assms(2)
  by (auto simp: readNewClassDesc_def case_prod_beta leaf_invs tag_defs
      within_readTC_CLASSDESC [OF assms(1)] within_readTC_PROXYCLASSDESC [OF assms(1)]
      intro!: within_seq)

lemma within_readClassDesc_body:
  assumes "kept w" "loose K st"
  shows "within K (readClassDesc_body w st)"
  using assms(2)
  by (auto simp: readClassDesc_body_def case_prod_beta leaf_invs tag_defs
      within_readNewClassDesc [OF assms(1)]
      intro!: within_seq split: option.splits sum.splits)

lemma within_readClassDataField:
  assumes "kept w" "loose K st"
  shows "within K (readClassDataField w cf st)"
  using assms(2)
  by (auto simp: readClassDataField_def leaf_invs keptD [OF assms(1)] intro!: within_seq)

lemma within_readClassData_values:
  assumes "kept w"
  shows "fits K st \<Longrightarrow> within K (readClassData_values w cfs st)"
  by (induction cfs arbitrary: st)
     (auto simp: leaf_invs within_readClassDataField [OF assms] intro!: within_seq)

lemma within_readClassData_classes:
  assumes "kept w"
  shows "fits K st \<Longrightarrow> within K (readClassData_classes w c k st)"
proof (induction k arbitrary: st)
  case 0
  then show ?case by simp
next
  case (Suc k)
  show ?case
  proof (cases "getClassDetails c (int k)")
    case None
    then show ?thesis by simp
  next
    case (Some cd)
    have body: "within K (readClassData_classes w c (Suc k) st)"
      unfolding readClassData_classes.simps Some option.case
    proof (intro within_seq, goal_cases)
      case 1
      from Suc.prems show ?case
        by (auto simp: leaf_invs within_readClassData_values [OF assms] intro!: within_seq)
    next
      case (2 x s)
      then show ?case
        by (auto simp: leaf_invs Suc.IH intro!: within_seq within_annotation_block [OF assms])
    qed
    then show ?thesis .
  qed
qed

lemma within_readClassData:
  assumes "kept w" "fits K st"
  shows "within K (readClassData w cdd st)"
  using assms(2)
  by (auto simp: readClassData_def leaf_invs within_readClassData_classes [OF assms(1)]
      intro!: within_seq split: option.splits)

lemma within_readNewObject:
  assumes "kept w" "loose K st"
  shows "within K (readNewObject w st)"
  using assms(2)
  by (auto simp: readNewObject_def case_prod_beta leaf_invs keptD [OF assms(1)]
      within_readClassData [OF assms(1)] intro!: within_seq)

lemma within_readNewClass:
  assumes "kept w" "loose K st"
  shows "within K (readNewClass w st)"
  using assms(2)
  by (auto simp: readNewClass_def case_prod_beta leaf_invs keptD [OF assms(1)]
      intro!: within_seq)

lemma within_readNewArray_values:
  assumes "kept w"
  shows "fits K st \<Longrightarrow> within K (readNewArray_values w k tc st)"
  by (induction k arbitrary: st)
     (auto simp: leaf_invs keptD [OF assms] intro!: within_seq)

lemma within_readNewArray:
  assumes "kept w" "loose K st"
  shows "within K (readNewArray w st)"
  using assms(2)
  by (auto simp: readNewArray_def case_prod_beta leaf_invs keptD [OF assms(1)]
      within_readNewArray_values [OF assms(1)] intro!: within_seq split: option.splits)

lemma within_readNewEnum:
  assumes "kept w" "loose K st"
  shows "within K (readNewEnum w st)"
  using assms(2)
  by (auto simp: readNewEnum_def case_prod_beta leaf_invs keptD [OF assms(1)]
      intro!: within_seq)

lemma within_discard: "within K a \<Longrightarrow> within K (seq a discard)"
  by (cases a) (simp_all add: seq_def discard_def)

lemma within_readArrayField:
  assumes "kept w" "loose K st"
  shows "within K (readArrayField w st)"
  using assms(2)
  by (auto simp: readArrayField_def case_prod_beta leaf_invs tag_defs
      within_readNewArray [OF assms(1)] intro!: within_seq within_discard)

lemma within_readObjectField:
  assumes "kept w" "loose K st"
  shows "within K (readObjectField w st)"
  using assms(2)
  by (auto simp: readObjectField_def case_prod_beta leaf_invs tag_defs
      within_readNewArray [OF assms(1)] within_readNewObject [OF assms(1)]
      within_readNewClass [OF assms(1)] within_readNewEnum [OF assms(1)]
      intro!: within_seq within_discard)

lemma within_readFieldValue_body:
  assumes "kept w" "loose K st"
  shows "within K (readFieldValue_body w tc st)"
  using assms(2)
  by (auto simp: readFieldValue_body_def leaf_invs within_readArrayField [OF assms(1)]
      within_readObjectField [OF assms(1)])

lemma withinC_noError: "within K a \<Longrightarrow> withinC K (seq a noError)"
  by (cases a) (simp_all add: seq_def noError_def withinC_def fits_loose)

lemma seq_noError_Some: "seq a noError \<noteq> Returned (Some e) st'"
  by (cases a) (simp_all add: seq_def noError_def)

lemma withinC_readContentElement_body:
  assumes "kept w" "loose K st"
  shows "withinC K (readContentElement_body w st)"
  using assms(2)
  by (auto simp: readContentElement_body_def case_prod_beta leaf_invs tag_defs
      readException_def handleReset_def
      within_readNewArray [OF assms(1)] within_readNewObject [OF assms(1)]
      within_readNewClass [OF assms(1)] within_readNewEnum [OF assms(1)]
      within_readNewClassDesc [OF assms(1)]
      intro!: withinC_noError)
     (simp_all add: withinC_def loose_peek tag_defs)

lemma stuck_readContentElement_body:
  assumes "data st \<noteq> []" "readContentElement_body w st = Returned (Some e) st'"
  shows "st' = st"
  using assms
  by (auto simp: readContentElement_body_def Smooth_peek_nonempty seq_noError_Some
      split: if_splits)

lemma zero_readContentElement_body:
  assumes "data st \<noteq> []" "hd (data st) = 0"
  shows "\<exists>e. readContentElement_body w st = Returned (Some e) st"
  using assms by (simp add: readContentElement_body_def Smooth_peek_nonempty tag_defs)

lemma kept_walker: "kept (walker n)"
proof (induction n)
  case 0
  show ?case by (simp add: kept_def withinC_def)
next
  case (Suc n)
  show ?case
    unfolding kept_def walker.simps calls_deeper
    using within_readClassDesc_body [OF Suc] within_readFieldValue_body [OF Suc]
      withinC_readContentElement_body [OF Suc] stuck_readContentElement_body
      zero_readContentElement_body
    by blast
qed

section \<open>The loop of parseStream\<close>

text \<open>
  With a bound on the budget below \<open>maxDataBlockSize\<close> the condition of the loop holds in
  every iteration, for this value of \<open>maxDataBlockSize\<close> and for any other above the bound.
\<close>

lemma withMax_same: "withMax (maxDataBlockSize st) st = st"
  by (simp add: withMax_def)

lemma max_preserved:
  assumes "framed w" "readContentElement w st = Returned e st1"
  shows "maxDataBlockSize st1 = maxDataBlockSize st"
proof -
  have "readContentElement w (withMax (maxDataBlockSize st) st)
          = mapS (withMax (maxDataBlockSize st)) (readContentElement w st)"
    by (rule framedD(1) [OF assms(1)])
  with assms(2) have "st1 = withMax (maxDataBlockSize st) st1"
    by (simp add: withMax_same)
  then have "maxDataBlockSize st1 = maxDataBlockSize (withMax (maxDataBlockSize st) st1)"
    by simp
  then show ?thesis by simp
qed

lemma nPos_le_budget: "nPos st \<le> budget st"
  by (simp add: budget_def)

lemma parseStream_contents_frame:
  assumes "kept w" "framed w"
  shows "loose K st \<Longrightarrow> K < maxDataBlockSize st \<Longrightarrow> K < m \<Longrightarrow>
         parseStream_contents k w (withMax m st) = mapS (withMax m) (parseStream_contents k w st)"
proof (induction k arbitrary: st)
  case 0
  with nPos_le_budget [of st] show ?case
    by (simp add: Smooth_size_def loose_def)
next
  case (Suc k)
  from Suc.prems nPos_le_budget [of st]
  have sz: "Smooth_size st > 0" "Smooth_size (withMax m st) > 0"
    by (simp_all add: Smooth_size_def loose_def)
  show ?case
  proof (cases "readContentElement w st")
    case OutOfFuel
    with sz show ?thesis by (simp add: framedD(1) [OF assms(2)] seq_def)
  next
    case (Panicked p)
    with sz show ?thesis by (simp add: framedD(1) [OF assms(2)] seq_def)
  next
    case (Returned e st1)
    show ?thesis
    proof (cases e)
      case (Some err)
      with Returned sz show ?thesis by (simp add: framedD(1) [OF assms(2)] seq_def)
    next
      case None
      with Returned Suc.prems(1) have "loose K st1"
        using keptD(3) [OF assms(1), of K st] by (simp add: withinC_def)
      moreover have "K < maxDataBlockSize st1"
        using max_preserved [OF assms(2) Returned] Suc.prems(2) by simp
      ultimately have "parseStream_contents k w (withMax m st1)
                         = mapS (withMax m) (parseStream_contents k w st1)"
        using Suc.prems(3) by (intro Suc.IH)
      with Returned None sz show ?thesis by (simp add: framedD(1) [OF assms(2)] seq_def)
    qed
  qed
qed

lemma parseStream_prefix:
  assumes "p \<noteq> STREAM_MAGIC1" and "int (length rest) + 1 < m"
  shows "parseStream n
           (NewSerializedObjectParser (p # STREAM_MAGIC1 # STREAM_MAGIC2 # v1 # v2 # rest) (m + 1)) =
         mapS (withMax (m + 1)) (parseStream n
           (NewSerializedObjectParser (STREAM_MAGIC1 # STREAM_MAGIC2 # v1 # v2 # rest) m))"
proof -
  let ?st = "\<lparr>rd = rest, handles = [], maxDataBlockSize = m, handleValue = 0x7e0000,
      indent = ''  '', classDataDescriptions = [], data = [], nPos = 1,
      so = \<lparr>so_STREAM_MAGIC = 0, so_STREAM_VERSION = 0, so_Tc_Type = 0\<rparr>\<rparr>"
  have l: "loose (int (length rest) + 1) ?st"
    by (simp add: loose_def budget_def)
  have "parseStream_contents n (walker n) (withMax (m + 1) ?st)
          = mapS (withMax (m + 1)) (parseStream_contents n (walker n) ?st)"
    using kept_walker framed_walker l by (rule parseStream_contents_frame) (use assms(2) in simp_all)
  moreover have "withMax (m + 1) ?st = ?st\<lparr>maxDataBlockSize := m + 1\<rparr>"
    by (simp add: withMax_def)
  ultimately show ?thesis
    using assms(1)
    by (simp add: parseStream_def NewSerializedObjectParser_def Smooth_peek_def Smooth_pop_def
        Smooth_add_def readUInt8_def ReadFull_def increaseIndent_def seq_mapS mapS_seq
        decreaseIndent_frame)
qed

lemma ParseSerializedObject_prefix:
  assumes "p \<noteq> STREAM_MAGIC1"
  shows "ParseSerializedObject n (p # STREAM_MAGIC1 # STREAM_MAGIC2 # 0x00 # 0x05 # rest) =
         mapS (withMax (int (length rest) + 5))
           (ParseSerializedObject n (STREAM_MAGIC1 # STREAM_MAGIC2 # 0x00 # 0x05 # rest))"
proof -
  have "int (length rest) + 1 < int (length rest) + 4" by simp
  from parseStream_prefix [OF assms this, of n 0 5]
  show ?thesis
    by (simp add: ParseSerializedObject_def seq_mapS mapS_seq add.commute)
qed

section \<open>The byte before the magic number\<close>

text \<open>
  The method \<open>ParseSerializedObject\<close> does not call \<open>parseStream\<close> and takes no byte
  before the magic number: a stream with the prefix \<open>0x50\<close> fails its check of the magic
  number.
\<close>

lemma method_rejects_prefix:
  "result (ParseSerializedObject_method 1
             (NewSerializedObjectParser [0x50, 0xAC, 0xED, 0x00, 0x05] 5))
     = Some ([], Some (New ''magic value STREAM_MAGIC not found''))"
  by code_simp

text \<open>
  C9, as the specification states it, fails in its second half: a leading byte that is
  neither an RMI packet type nor the first magic byte is consumed before the magic number
  is checked. With the leading byte \<open>00\<close> the stream \<open>00 AC ED 00 05 70\<close> passes the check
  and is read to its end, exactly as \<open>AC ED 00 05 70\<close> is.
\<close>

theorem unknown_leading_byte_counterexample:
  "map_option rd (final (parseStream 3
      (NewSerializedObjectParser [0x00, 0xAC, 0xED, 0x00, 0x05, 0x70] 6))) = Some [] \<and>
   parseStream 3 (NewSerializedObjectParser [0x00, 0xAC, 0xED, 0x00, 0x05, 0x70] 6) =
   parseStream 3 (NewSerializedObjectParser [0xAC, 0xED, 0x00, 0x05, 0x70] 6)"
  by code_simp

text \<open>
  C9, amended: for every leading byte \<open>p\<close> other than the first magic byte \<open>0xAC\<close>, so
  for each of \<open>0x50\<close> \<dots> \<open>0x54\<close> and for every other byte as well, \<open>parseStream\<close> consumes
  \<open>p\<close> before it checks the magic number, without an error, and parsing
  \<open>p AC ED 00 05 rest\<close> yields the same result as parsing \<open>AC ED 00 05 rest\<close>. For two
  parsers with the same \<open>maxDataBlockSize\<close> the runs of \<open>parseStream\<close> have the same
  outcome and leave the same state; for the function \<open>ParseSerializedObject\<close>, which sets
  \<open>maxDataBlockSize\<close> to the length of its buffer, the two runs have the same outcome
  (both return \<open>nil, nil\<close>, or both panic with the same value, or neither ends within
  \<open>n\<close> steps) and leave states that differ in \<open>maxDataBlockSize\<close> only.
\<close>

theorem leading_byte_consumed:
  assumes "p \<noteq> STREAM_MAGIC1"
  shows "parseStream n
           (NewSerializedObjectParser (p # STREAM_MAGIC1 # STREAM_MAGIC2 # 0x00 # 0x05 # rest) m) =
         parseStream n
           (NewSerializedObjectParser (STREAM_MAGIC1 # STREAM_MAGIC2 # 0x00 # 0x05 # rest) m) \<and>
         ParseSerializedObject n (p # STREAM_MAGIC1 # STREAM_MAGIC2 # 0x00 # 0x05 # rest) =
         mapS (withMax (int (length rest) + 5))
           (ParseSerializedObject n (STREAM_MAGIC1 # STREAM_MAGIC2 # 0x00 # 0x05 # rest))"
proof
  show "parseStream n
           (NewSerializedObjectParser (p # STREAM_MAGIC1 # STREAM_MAGIC2 # 0x00 # 0x05 # rest) m) =
         parseStream n
           (NewSerializedObjectParser (STREAM_MAGIC1 # STREAM_MAGIC2 # 0x00 # 0x05 # rest) m)"
    using assms
    by (simp add: parseStream_def NewSerializedObjectParser_def Smooth_peek_def Smooth_pop_def
        Smooth_add_def readUInt8_def ReadFull_def)
  show "ParseSerializedObject n (p # STREAM_MAGIC1 # STREAM_MAGIC2 # 0x00 # 0x05 # rest) =
         mapS (withMax (int (length rest) + 5))
           (ParseSerializedObject n (STREAM_MAGIC1 # STREAM_MAGIC2 # 0x00 # 0x05 # rest))"
    using assms by (rule ParseSerializedObject_prefix)
qed

theorem leading_byte_consumed_witness:
  "RMI_Call \<noteq> STREAM_MAGIC1 \<and>
   parseStream 3
     (NewSerializedObjectParser (RMI_Call # STREAM_MAGIC1 # STREAM_MAGIC2 # 0x00 # 0x05 # [0x70]) 6) =
   parseStream 3
     (NewSerializedObjectParser (STREAM_MAGIC1 # STREAM_MAGIC2 # 0x00 # 0x05 # [0x70]) 6) \<and>
   ParseSerializedObject 3 (RMI_Call # STREAM_MAGIC1 # STREAM_MAGIC2 # 0x00 # 0x05 # [0x70]) =
   mapS (withMax (int (length [0x70 :: byte]) + 5))
     (ParseSerializedObject 3 (STREAM_MAGIC1 # STREAM_MAGIC2 # 0x00 # 0x05 # [0x70]))"
proof -
  have ne: "RMI_Call \<noteq> STREAM_MAGIC1"
    by (simp add: RMI_Call_def STREAM_MAGIC1_def)
  from leading_byte_consumed [OF ne, of 3 "[0x70]" 6] ne show ?thesis
    by blast
qed

section \<open>The list post-processor\<close>

lemma listPostProc_value:
  assumes "postProcSize dat 0 = (sz, None)" and "int (length dat) = sz + 1"
  shows "listPostProc flds dat =
           (Some (flds(key_value \<mapsto> VSlice (take (nat sz - 1) (drop 1 dat)))), None)"
  using assms by (simp add: listPostProc_def)

lemma listPostProc_value_length:
  assumes "int (length dat) = sz + 1"
  shows "int (length (take (nat sz - 1) (drop 1 dat))) = max 0 (sz - 1)"
  using assms by auto

text \<open>
  C10. The claim: the object's value is made of the \<open>size\<close> annotation elements that
  follow the first. The code: the value is \<open>data[1:size]\<close>, which has \<open>size - 1\<close>
  elements, and it is the empty list when \<open>size\<close> is 1. For the annotations of a list
  with the one element \<open>A\<close> the value is empty; for those of a list with the elements
  \<open>A\<close> and \<open>B\<close> the value holds \<open>A\<close> only.
\<close>

theorem listPostProc_loses_last_element:
  "map_option (\<lambda>m. m key_value)
     (fst (listPostProc Map.empty [VBytes [0x00, 0x00, 0x00, 0x01], VString [0x41]]))
     = Some (Some (VSlice [])) \<and>
   snd (listPostProc Map.empty [VBytes [0x00, 0x00, 0x00, 0x01], VString [0x41]]) = None \<and>
   map_option (\<lambda>m. m key_value)
     (fst (listPostProc Map.empty
             [VBytes [0x00, 0x00, 0x00, 0x02], VString [0x41], VString [0x42]]))
     = Some (Some (VSlice [VString [0x41]])) \<and>
   snd (listPostProc Map.empty
          [VBytes [0x00, 0x00, 0x00, 0x02], VString [0x41], VString [0x42]]) = None"
  by code_simp

end
